theory Spec2Isabelle
  imports Main
begin

section \<open>Data model\<close>

text \<open>
  The VirtualMachine controller (controllers/virtualmachine/virtualmachine_controller.go)
  and the VirtualMachineService controller are embedded as pure functions. A reconcile
  reads the cluster through its client and talks to the provider driver, the prober
  manager and the event recorder: all of these are collaborators outside the repository's
  controller code, so their answers are the fields of a record \<open>world\<close>, and every call
  made on them is appended to a log kept beside the Reconciler's fields.
\<close>

subsection \<open>Errors\<close>

text \<open>
  A Go \<open>error\<close> is a value: a Kubernetes API status error with its reason
  (\<open>apiErrors.IsNotFound\<close>, \<open>errors.IsForbidden\<close> look at the reason), an error made by
  \<open>fmt.Errorf\<close>, an error wrapped with a message by \<open>errors.Wrap\<close>, or the service
  controller's \<open>RequeueAfterError\<close> with its duration.
\<close>

datatype StatusReason = StatusReasonNotFound | StatusReasonForbidden | StatusReasonOther string

datatype error =
    StatusError StatusReason string
  | Errorf string
  | Wrap error string
  | RequeueAfterError int

fun IsNotFound :: "error \<Rightarrow> bool" where
  "IsNotFound (StatusError reason msg) = (reason = StatusReasonNotFound)"
| "IsNotFound e = False"

fun IsForbidden :: "error \<Rightarrow> bool" where
  "IsForbidden (StatusError reason msg) = (reason = StatusReasonForbidden)"
| "IsForbidden e = False"

text \<open>\<open>client.IgnoreNotFound\<close>: nil for a NotFound error, the error itself otherwise.\<close>

definition IgnoreNotFound :: "error \<Rightarrow> error option" where
  "IgnoreNotFound err = (if IsNotFound err then None else Some err)"

text \<open>
  The text of an error, as \<open>%s\<close> prints it in a condition message. The text of a
  \<open>RequeueAfterError\<close> ends with its duration as \<open>time.Duration\<close> prints it; that printing
  belongs to the Go library and is the parameter \<open>durationString\<close>.
\<close>

fun error_string :: "(int \<Rightarrow> string) \<Rightarrow> error \<Rightarrow> string" where
  "error_string durationString (StatusError reason msg) = msg"
| "error_string durationString (Errorf msg) = msg"
| "error_string durationString (Wrap err msg) = msg @ '': '' @ error_string durationString err"
| "error_string durationString (RequeueAfterError d) = ''requeue in: '' @ durationString d"

subsection \<open>Time\<close>

text \<open>
  \<open>time.Duration\<close> counts nanoseconds. A \<open>metav1.Time\<close> pointer is an optional
  instant; \<open>IsZero\<close> holds of the nil pointer and of the zero instant.
\<close>

type_synonym Duration = int

definition Second :: Duration where
  "Second = 1000000000"

definition IsZero :: "nat option \<Rightarrow> bool" where
  "IsZero t = (case t of None \<Rightarrow> True | Some i \<Rightarrow> i = 0)"

subsection \<open>API objects\<close>

text \<open>
  Modelled from the spec: the API types of vm-operator-api/api/v1alpha1 are not in the
  sources. The phase "is one of {unset, Creating, Created, Deleting, Deleted}"; the power
  state is unset, powered off or powered on. Only the fields the controllers read or
  write are kept.
\<close>

datatype VMStatusPhase = PhaseUnset | Creating | Created | Deleting | Deleted

datatype VirtualMachinePowerState =
  PowerStateUnset | VirtualMachinePoweredOff | VirtualMachinePoweredOn

datatype ConditionStatus = ConditionTrue | ConditionFalse | ConditionUnknown

record Condition =
  cond_Type :: string
  cond_Status :: ConditionStatus
  cond_Reason :: string
  cond_Severity :: string
  cond_Message :: string

record OwnerReference =
  ref_Kind :: string
  ref_Name :: string
  ref_UID :: string

record VirtualMachineMetadata =
  ConfigMapName :: string
  SecretName :: string
  Transport :: string

record InstanceVolumeClaimVolumeSource =
  ivc_StorageClass :: string
  ivc_Size :: string

record PersistentVolumeClaimVolumeSource =
  ClaimName :: string
  ReadOnly :: bool
  InstanceVolumeClaim :: "InstanceVolumeClaimVolumeSource option"

record VirtualMachineVolume =
  vol_Name :: string
  PersistentVolumeClaim :: "PersistentVolumeClaimVolumeSource option"

record VirtualMachinePort =
  port_Port :: int
  port_Name :: string
  port_Protocol :: string

datatype IntOrString = IntVal int | StrVal string

record TCPSocketAction =
  tcp_Port :: IntOrString
  tcp_Host :: string

record Probe =
  TCPSocket :: "TCPSocketAction option"
  TimeoutSeconds :: int

record VirtualMachineSpec =
  ImageName :: string
  ClassName :: string
  spec_PowerState :: VirtualMachinePowerState
  spec_Ports :: "VirtualMachinePort list"
  VmMetadata :: "VirtualMachineMetadata option"
  StorageClass :: string
  Volumes :: "VirtualMachineVolume list"
  ReadinessProbe :: "Probe option"
  ResourcePolicyName :: string

record VirtualMachineStatus =
  Host :: string
  PowerState :: VirtualMachinePowerState
  Phase :: VMStatusPhase
  VmIp :: string
  Conditions :: "Condition list"

record VirtualMachine =
  vm_Name :: string
  vm_Namespace :: string
  vm_UID :: string
  vm_Labels :: "(string \<times> string) list"
  vm_Annotations :: "(string \<times> string) list"
  vm_Finalizers :: "string list"
  vm_DeletionTimestamp :: "nat option"
  Spec :: VirtualMachineSpec
  Status :: VirtualMachineStatus

record InstanceStorageVolume =
  isv_Size :: string

record InstanceStorage =
  is_StorageClass :: string
  is_Volumes :: "InstanceStorageVolume list"

record VirtualMachineClass =
  class_Name :: string
  class_InstanceStorage :: InstanceStorage

record VirtualMachineClassBinding =
  ClassRef_Kind :: string
  ClassRef_Name :: string

record VirtualMachineImage =
  image_Name :: string
  image_OwnerReferences :: "OwnerReference list"

record ContentLibraryProvider =
  clp_Name :: string
  clp_UUID :: string
  clp_OwnerReferences :: "OwnerReference list"

record ContentSource =
  cs_Name :: string

record ContentSourceBinding =
  ContentSourceRef_Kind :: string
  ContentSourceRef_Name :: string

record VirtualMachineSetResourcePolicy =
  rp_Name :: string
  rp_DeletionTimestamp :: "nat option"

record StorageClassObject =
  Parameters :: "(string \<times> string) list"

text \<open>\<open>vmprovider.VMMetadata\<close> and \<open>vmprovider.VMConfigArgs\<close>, the bundle handed to the provider.\<close>

record VMMetadata =
  md_Data :: "(string \<times> string) list"
  md_Transport :: string

record VMConfigArgs =
  args_VMClass :: VirtualMachineClass
  args_VMImage :: VirtualMachineImage
  args_VMMetadata :: VMMetadata
  args_ResourcePolicy :: "VirtualMachineSetResourcePolicy option"
  args_StorageProfileID :: string
  args_ContentLibraryUUID :: string

subsection \<open>Constants\<close>

definition finalizerName :: string where
  "finalizerName = ''virtualmachine.vmoperator.vmware.com''"

text \<open>
  Modelled from the spec: the names below are constants of vm-operator-api and of
  pkg/vmprovider/providers/vsphere/constants, which are not in the sources. Only their
  being distinct names matters.
\<close>

definition PauseAnnotation :: string where
  "PauseAnnotation = ''vmoperator.vmware.com/pause-reconcile''"

definition InstanceStoragePVCsBoundAnnotationKey :: string where
  "InstanceStoragePVCsBoundAnnotationKey = ''vmoperator.vmware.com/instance-storage-pvcs-bound''"

definition InstanceStoragePVCNamePrefix :: string where
  "InstanceStoragePVCNamePrefix = ''instance-pvc-''"

definition KubernetesTopologyZoneLabelKey :: string where
  "KubernetesTopologyZoneLabelKey = ''topology.kubernetes.io/zone''"

definition VirtualMachinePrereqReadyCondition :: string where
  "VirtualMachinePrereqReadyCondition = ''VirtualMachinePrereqReady''"

definition VirtualMachineClassNotFoundReason :: string where
  "VirtualMachineClassNotFoundReason = ''VirtualMachineClassNotFound''"

definition VirtualMachineClassBindingNotFoundReason :: string where
  "VirtualMachineClassBindingNotFoundReason = ''VirtualMachineClassBindingNotFound''"

definition VirtualMachineImageNotFoundReason :: string where
  "VirtualMachineImageNotFoundReason = ''VirtualMachineImageNotFound''"

definition ContentSourceBindingNotFoundReason :: string where
  "ContentSourceBindingNotFoundReason = ''ContentSourceBindingNotFound''"

definition ConditionSeverityError :: string where
  "ConditionSeverityError = ''Error''"

subsection \<open>Conditions and finalizers\<close>

text \<open>
  Modelled from the spec: pkg/conditions is not in the sources. "A named condition carries
  {status, reason, severity, message}"; marking a condition replaces the condition of that
  name in the object's list, or appends it when the list has none.
\<close>

fun setCondition :: "Condition \<Rightarrow> Condition list \<Rightarrow> Condition list" where
  "setCondition c [] = [c]"
| "setCondition c (d # ds) =
     (if cond_Type d = cond_Type c then c # ds else d # setCondition c ds)"

fun getCondition :: "string \<Rightarrow> Condition list \<Rightarrow> Condition option" where
  "getCondition t [] = None"
| "getCondition t (d # ds) = (if cond_Type d = t then Some d else getCondition t ds)"

definition MarkFalse :: "VirtualMachine \<Rightarrow> string \<Rightarrow> string \<Rightarrow> string \<Rightarrow> string \<Rightarrow> VirtualMachine" where
  "MarkFalse vm t reason severity msg =
     vm\<lparr>Status := (Status vm)\<lparr>Conditions :=
        setCondition \<lparr>cond_Type = t, cond_Status = ConditionFalse, cond_Reason = reason,
                      cond_Severity = severity, cond_Message = msg\<rparr>
          (Conditions (Status vm))\<rparr>\<rparr>"

definition MarkTrue :: "VirtualMachine \<Rightarrow> string \<Rightarrow> VirtualMachine" where
  "MarkTrue vm t =
     vm\<lparr>Status := (Status vm)\<lparr>Conditions :=
        setCondition \<lparr>cond_Type = t, cond_Status = ConditionTrue, cond_Reason = [],
                      cond_Severity = [], cond_Message = []\<rparr>
          (Conditions (Status vm))\<rparr>\<rparr>"

text \<open>
  The finalizer helpers of controller-runtime's \<open>controllerutil\<close>: membership, adding
  once, removing every occurrence.
\<close>

definition ContainsFinalizer :: "VirtualMachine \<Rightarrow> string \<Rightarrow> bool" where
  "ContainsFinalizer vm f = (f \<in> set (vm_Finalizers vm))"

definition AddFinalizer :: "VirtualMachine \<Rightarrow> string \<Rightarrow> VirtualMachine" where
  "AddFinalizer vm f =
     (if f \<in> set (vm_Finalizers vm) then vm
      else vm\<lparr>vm_Finalizers := vm_Finalizers vm @ [f]\<rparr>)"

definition RemoveFinalizer :: "VirtualMachine \<Rightarrow> string \<Rightarrow> VirtualMachine" where
  "RemoveFinalizer vm f = vm\<lparr>vm_Finalizers := filter (\<lambda>g. g \<noteq> f) (vm_Finalizers vm)\<rparr>"

text \<open>
  Modelled from the spec: \<open>instancestorage.IsConfigured\<close> is not in the sources. The
  augmentation is "only applied when not already configured": a VM is configured once one
  of its volumes carries an instance volume claim, which is what \<open>addInstanceStorageSpec\<close>
  appends.
\<close>

definition isInstanceVolume :: "VirtualMachineVolume \<Rightarrow> bool" where
  "isInstanceVolume v =
     (case PersistentVolumeClaim v of
        None \<Rightarrow> False
      | Some pvc \<Rightarrow> InstanceVolumeClaim pvc \<noteq> None)"

definition IsConfigured :: "VirtualMachine \<Rightarrow> bool" where
  "IsConfigured vm = list_ex isInstanceVolume (Volumes (Spec vm))"

section \<open>The collaborators of a reconcile\<close>

text \<open>
  Every call a reconcile makes on its client, on the provider driver, on the prober
  manager and on the event recorder. A client read carries the kind, the namespace
  (empty for a cluster-scoped kind) and the name it asks for.
\<close>

datatype call =
    ClientGet string string string
  | ClientList string string
  | ClientCreate string
  | ClientUpdate string
  | ProviderExists
  | ProviderCreate
  | ProviderUpdate
  | ProviderDelete
  | ProviderIsResourcePolicyReady
  | ProberAdd
  | ProberRemove
  | EmitEvent string "error option"

fun isProviderCall :: "call \<Rightarrow> bool" where
  "isProviderCall ProviderExists = True"
| "isProviderCall ProviderCreate = True"
| "isProviderCall ProviderUpdate = True"
| "isProviderCall ProviderDelete = True"
| "isProviderCall ProviderIsResourcePolicyReady = True"
| "isProviderCall c = False"

text \<open>
  The Reconciler struct: the two counters of the creation admission control, which the
  source reads and writes under \<open>r.mutex\<close>, and the log of the calls made through the
  Reconciler's Client, VMProvider, Prober and Recorder (the log is not a field of the Go
  struct). One reconcile is modelled at a time; \<open>NumVMsBeingCreatedOnProvider\<close> is a Go
  \<open>int\<close>, incremented only below the bound, so it is an unbounded integer here.
\<close>

record Reconciler =
  NumVMsBeingCreatedOnProvider :: int
  MaxConcurrentCreateVMsOnProvider :: int
  calls :: "call list"

definition logCall :: "Reconciler \<Rightarrow> call \<Rightarrow> Reconciler" where
  "logCall r c = r\<lparr>calls := calls r @ [c]\<rparr>"

text \<open>The calls on the provider driver among the logged calls.\<close>

definition providerCalls :: "Reconciler \<Rightarrow> call list" where
  "providerCalls r = filter isProviderCall (calls r)"

text \<open>
  What the collaborators answer during one reconcile: the two feature switches of
  \<open>lib\<close>, the objects the client returns, the UUID generator (its n-th answer), and the
  provider driver. The provider's create and update are handed the VirtualMachine and
  fill in its Status (the source, line 690: "update the Status of existing
  VirtualMachines"), so they answer with an error or nil and the Status they leave. Its
  other operations and the client's reads are taken to leave the object they are handed
  as it is. Two functions of the Go library are answers of the world as well: the text
  \<open>time.Duration\<close> prints, and the text \<open>fmt\<close> makes of a format string that is given no
  operands (the string itself when it has no percent sign). The workers of the controller run concurrently; a single reconcile is
  modelled, with the counters as this reconcile reads and writes them under the mutex.
\<close>

record world =
  IsVMServiceFSSEnabled :: bool
  IsInstanceStorageFSSEnabled :: bool
  GetVirtualMachine :: "string \<Rightarrow> string \<Rightarrow> error + VirtualMachine"
  GetVirtualMachineClass :: "string \<Rightarrow> error + VirtualMachineClass"
  ListVirtualMachineClassBinding :: "string \<Rightarrow> error + VirtualMachineClassBinding list"
  GetVirtualMachineImage :: "string \<Rightarrow> error + VirtualMachineImage"
  GetContentLibraryProvider :: "string \<Rightarrow> error + ContentLibraryProvider"
  GetContentSource :: "string \<Rightarrow> error + ContentSource"
  ListContentSourceBinding :: "string \<Rightarrow> error + ContentSourceBinding list"
  GetConfigMap :: "string \<Rightarrow> string \<Rightarrow> error + (string \<times> string) list"
  GetSecret :: "string \<Rightarrow> string \<Rightarrow> error + (string \<times> string) list"
  GetVirtualMachineSetResourcePolicy :: "string \<Rightarrow> string \<Rightarrow> error + VirtualMachineSetResourcePolicy"
  GetStorageClass :: "string \<Rightarrow> error + StorageClassObject"
  NewUUID :: "nat \<Rightarrow> error + string"
  DurationString :: "Duration \<Rightarrow> string"
  FormatNoOperands :: "string \<Rightarrow> string"
  NewHelper :: "VirtualMachine \<Rightarrow> error option"
  Patch :: "VirtualMachine \<Rightarrow> error option"
  DoesVirtualMachineExist :: "VirtualMachine \<Rightarrow> error + bool"
  CreateVirtualMachine :: "VirtualMachine \<Rightarrow> VMConfigArgs \<Rightarrow> error option \<times> VirtualMachineStatus"
  UpdateVirtualMachine :: "VirtualMachine \<Rightarrow> VMConfigArgs \<Rightarrow> error option \<times> VirtualMachineStatus"
  DeleteVirtualMachine :: "VirtualMachine \<Rightarrow> error option"
  IsVirtualMachineSetResourcePolicyReady ::
    "string \<Rightarrow> VirtualMachineSetResourcePolicy \<Rightarrow> error + bool"

text \<open>A Go map read: the value of the key, or the empty string when the key is absent.\<close>

definition lookup :: "(string \<times> string) list \<Rightarrow> string \<Rightarrow> string" where
  "lookup m k = (case map_of m k of None \<Rightarrow> [] | Some v \<Rightarrow> v)"

definition hasKey :: "(string \<times> string) list \<Rightarrow> string \<Rightarrow> bool" where
  "hasKey m k = (map_of m k \<noteq> None)"

definition setPhase :: "VirtualMachine \<Rightarrow> VMStatusPhase \<Rightarrow> VirtualMachine" where
  "setPhase vm p = vm\<lparr>Status := (Status vm)\<lparr>Phase := p\<rparr>\<rparr>"

section \<open>The VirtualMachine controller\<close>

subsection \<open>requeueDelay\<close>

definition requeueDelay :: "VirtualMachine \<Rightarrow> Duration" where
  "requeueDelay vm =
     (if Phase (Status vm) = Creating then 10 * Second
      else if VmIp (Status vm) = [] \<and> PowerState (Status vm) = VirtualMachinePoweredOn
        then 10 * Second
      else 0)"

subsection \<open>Dependency resolution\<close>

definition getStoragePolicyID ::
  "world \<Rightarrow> Reconciler \<Rightarrow> VirtualMachine \<Rightarrow> (error + string) \<times> Reconciler" where
  "getStoragePolicyID w r vm =
     (let scName = StorageClass (Spec vm) in
      if scName = [] then (Inr [], r)
      else
        (let r1 = logCall r (ClientGet ''StorageClass'' [] scName) in
         case GetStorageClass w scName of
           Inl err \<Rightarrow> (Inl err, r1)
         | Inr sc \<Rightarrow> (Inr (lookup (Parameters sc) ''storagePolicyID''), r1)))"

definition getContentLibraryProviderFromImage ::
  "world \<Rightarrow> Reconciler \<Rightarrow> VirtualMachineImage \<Rightarrow> (error + ContentLibraryProvider) \<times> Reconciler" where
  "getContentLibraryProviderFromImage w r vmImage =
     (case find (\<lambda>ownerRef. ref_Kind ownerRef = ''ContentLibraryProvider'')
             (image_OwnerReferences vmImage) of
        Some ownerRef \<Rightarrow>
          (let r1 = logCall r (ClientGet ''ContentLibraryProvider'' [] (ref_Name ownerRef)) in
           case GetContentLibraryProvider w (ref_Name ownerRef) of
             Inl err \<Rightarrow> (Inl err, r1)
           | Inr clProvider \<Rightarrow> (Inr clProvider, r1))
      | None \<Rightarrow>
          (Inl (Errorf (''VirtualMachineImage does not have an OwnerReference to the ContentLibraryProvider. imageName: ''
                  @ image_Name vmImage)), r))"

definition getContentSourceFromCLProvider ::
  "world \<Rightarrow> Reconciler \<Rightarrow> ContentLibraryProvider \<Rightarrow> (error + ContentSource) \<times> Reconciler" where
  "getContentSourceFromCLProvider w r clProvider =
     (case find (\<lambda>ownerRef. ref_Kind ownerRef = ''ContentSource'')
             (clp_OwnerReferences clProvider) of
        Some ownerRef \<Rightarrow>
          (let r1 = logCall r (ClientGet ''ContentSource'' [] (ref_Name ownerRef)) in
           case GetContentSource w (ref_Name ownerRef) of
             Inl err \<Rightarrow> (Inl err, r1)
           | Inr cs \<Rightarrow> (Inr cs, r1))
      | None \<Rightarrow>
          (Inl (Errorf (''ContentLibraryProvider does not have an OwnerReference to the ContentSource. clProviderName: ''
                  @ clp_Name clProvider)), r))"

definition getImageAndContentLibraryUUID ::
  "world \<Rightarrow> Reconciler \<Rightarrow> VirtualMachine \<Rightarrow>
     (error + VirtualMachineImage \<times> string) \<times> Reconciler \<times> VirtualMachine" where
  "getImageAndContentLibraryUUID w r vm =
     (let imageName = ImageName (Spec vm);
          r1 = logCall r (ClientGet ''VirtualMachineImage'' [] imageName) in
      case GetVirtualMachineImage w imageName of
        Inl err \<Rightarrow>
          (Inl err, r1,
           MarkFalse vm VirtualMachinePrereqReadyCondition VirtualMachineImageNotFoundReason
             ConditionSeverityError
             (''Failed to get VirtualMachineImage '' @ ImageName (Spec vm) @ '': '' @ error_string (DurationString w) err))
      | Inr vmImage \<Rightarrow>
         (case getContentLibraryProviderFromImage w r1 vmImage of
            (Inl err, r2) \<Rightarrow> (Inl err, r2, vm)
          | (Inr clProvider, r2) \<Rightarrow>
             (let clUUID = clp_UUID clProvider in
              if IsVMServiceFSSEnabled w then
                (case getContentSourceFromCLProvider w r2 clProvider of
                   (Inl err, r3) \<Rightarrow> (Inl err, r3, vm)
                 | (Inr contentSource, r3) \<Rightarrow>
                    (let r4 = logCall r3 (ClientList ''ContentSourceBinding'' (vm_Namespace vm)) in
                     case ListContentSourceBinding w (vm_Namespace vm) of
                       Inl err \<Rightarrow>
                         (let msg = ''Failed to list ContentSourceBindings in namespace: '' @ vm_Namespace vm in
                          (Inl (Wrap err msg), r4,
                           MarkFalse vm VirtualMachinePrereqReadyCondition
                             ContentSourceBindingNotFoundReason ConditionSeverityError msg))
                     | Inr items \<Rightarrow>
                         (let matchingContentSourceBinding =
                                list_ex (\<lambda>csBinding. ContentSourceRef_Kind csBinding = ''ContentSource''
                                           \<and> ContentSourceRef_Name csBinding = cs_Name contentSource) items in
                          if \<not> matchingContentSourceBinding then
                            (let msg = ''Namespace does not have access to VirtualMachineImage. imageName: ''
                                       @ ImageName (Spec vm) @ '', contentLibraryUUID: '' @ clUUID
                                       @ '', namespace: '' @ vm_Namespace vm in
                             (Inl (Errorf (FormatNoOperands w msg)), r4,
                              MarkFalse vm VirtualMachinePrereqReadyCondition
                                ContentSourceBindingNotFoundReason ConditionSeverityError msg))
                          else (Inr (vmImage, clUUID), r4, vm))))
              else (Inr (vmImage, clUUID), r2, vm))))"

definition getVMClass ::
  "world \<Rightarrow> Reconciler \<Rightarrow> VirtualMachine \<Rightarrow>
     (error + VirtualMachineClass) \<times> Reconciler \<times> VirtualMachine" where
  "getVMClass w r vm =
     (let className = ClassName (Spec vm);
          r1 = logCall r (ClientGet ''VirtualMachineClass'' [] className) in
      case GetVirtualMachineClass w className of
        Inl err \<Rightarrow>
          (Inl err, r1,
           MarkFalse vm VirtualMachinePrereqReadyCondition VirtualMachineClassNotFoundReason
             ConditionSeverityError
             (''Failed to get VirtualMachineClass '' @ ClassName (Spec vm) @ '': '' @ error_string (DurationString w) err))
      | Inr vmClass \<Rightarrow>
          if IsVMServiceFSSEnabled w then
            (let r2 = logCall r1 (ClientList ''VirtualMachineClassBinding'' (vm_Namespace vm)) in
             case ListVirtualMachineClassBinding w (vm_Namespace vm) of
               Inl err \<Rightarrow>
                 (let msg = ''Failed to list VirtualMachineClassBindings in namespace: '' @ vm_Namespace vm in
                  (Inl (Wrap err msg), r2,
                   MarkFalse vm VirtualMachinePrereqReadyCondition
                     VirtualMachineClassBindingNotFoundReason ConditionSeverityError msg))
             | Inr items \<Rightarrow>
                 (let matchingClassBinding =
                        list_ex (\<lambda>classBinding. ClassRef_Kind classBinding = ''VirtualMachineClass''
                                   \<and> ClassRef_Name classBinding = className) items in
                  if \<not> matchingClassBinding then
                    (Inl (Errorf (''VirtualMachineClassBinding does not exist for VM Class '' @ className
                                  @ '' in namespace '' @ vm_Namespace vm)), r2,
                     MarkFalse vm VirtualMachinePrereqReadyCondition
                       VirtualMachineClassBindingNotFoundReason ConditionSeverityError
                       (''Namespace does not have access to VirtualMachineClass. className: ''
                        @ ClassName (Spec vm) @ '', namespace: '' @ vm_Namespace vm))
                  else (Inr vmClass, r2, vm)))
          else (Inr vmClass, r1, vm))"

definition getVMMetadata ::
  "world \<Rightarrow> Reconciler \<Rightarrow> VirtualMachine \<Rightarrow> (error + VMMetadata) \<times> Reconciler" where
  "getVMMetadata w r vm =
     (let outMetadata = \<lparr>md_Data = [], md_Transport = []\<rparr> in
      case VmMetadata (Spec vm) of
        None \<Rightarrow> (Inr outMetadata, r)
      | Some inMetadata \<Rightarrow>
          if ConfigMapName inMetadata \<noteq> [] \<and> SecretName inMetadata \<noteq> [] then
            (Inl (Errorf ''failed to get VM metadata. Both configMapName and secretName are specified''), r)
          else
            (case (if ConfigMapName inMetadata \<noteq> [] then
                     (let r1 = logCall r (ClientGet ''ConfigMap'' (vm_Namespace vm) (ConfigMapName inMetadata)) in
                      case GetConfigMap w (vm_Namespace vm) (ConfigMapName inMetadata) of
                        Inl err \<Rightarrow> (Inl err, r1)
                      | Inr data \<Rightarrow> (Inr (outMetadata\<lparr>md_Data := data\<rparr>), r1))
                   else (Inr outMetadata, r)) of
               (Inl err, r1) \<Rightarrow> (Inl err, r1)
             | (Inr outMetadata1, r1) \<Rightarrow>
                (case (if SecretName inMetadata \<noteq> [] then
                         (let r2 = logCall r1 (ClientGet ''Secret'' (vm_Namespace vm) (SecretName inMetadata)) in
                          case GetSecret w (vm_Namespace vm) (SecretName inMetadata) of
                            Inl err \<Rightarrow> (Inl err, r2)
                          | Inr data \<Rightarrow> (Inr (outMetadata1\<lparr>md_Data := data\<rparr>), r2))
                       else (Inr outMetadata1, r1)) of
                   (Inl err, r2) \<Rightarrow> (Inl err, r2)
                 | (Inr outMetadata2, r2) \<Rightarrow>
                     (Inr (outMetadata2\<lparr>md_Transport := Transport inMetadata\<rparr>), r2))))"

definition getResourcePolicy ::
  "world \<Rightarrow> Reconciler \<Rightarrow> VirtualMachine \<Rightarrow>
     (error + VirtualMachineSetResourcePolicy option) \<times> Reconciler" where
  "getResourcePolicy w r vm =
     (let rpName = ResourcePolicyName (Spec vm) in
      if rpName = [] then (Inr None, r)
      else
        (let r1 = logCall r (ClientGet ''VirtualMachineSetResourcePolicy'' (vm_Namespace vm) rpName) in
         case GetVirtualMachineSetResourcePolicy w (vm_Namespace vm) rpName of
           Inl err \<Rightarrow> (Inl err, r1)
         | Inr resourcePolicy \<Rightarrow>
            (let r2 = logCall r1 ProviderIsResourcePolicyReady in
             case IsVirtualMachineSetResourcePolicyReady w
                    (lookup (vm_Labels vm) KubernetesTopologyZoneLabelKey) resourcePolicy of
               Inl err \<Rightarrow> (Inl err, r2)
             | Inr rpReady \<Rightarrow>
                 if \<not> rpReady then
                   (Inl (Errorf ''VirtualMachineSetResourcePolicy is not yet ready''), r2)
                 else (Inr (Some resourcePolicy), r2))))"

definition findInstanceStorageVMPlacementStatus :: "VirtualMachine \<Rightarrow> bool" where
  "findInstanceStorageVMPlacementStatus vm =
     (if \<not> IsConfigured vm then True
      else if \<not> hasKey (vm_Annotations vm) InstanceStoragePVCsBoundAnnotationKey then False
      else True)"

subsection \<open>Instance storage\<close>

text \<open>
  The loop of \<open>addInstanceStorageSpec\<close>: one UUID and one volume per instance storage
  volume of the class, stopping at the first UUID that cannot be generated. \<open>n\<close> counts
  the UUIDs generated so far.
\<close>

fun instanceStoragePVCs ::
  "world \<Rightarrow> string \<Rightarrow> nat \<Rightarrow> VirtualMachineVolume list \<Rightarrow> InstanceStorageVolume list
     \<Rightarrow> error + VirtualMachineVolume list" where
  "instanceStoragePVCs w sc n pvcs [] = Inr pvcs"
| "instanceStoragePVCs w sc n pvcs (isv # rest) =
     (case NewUUID w n of
        Inl err \<Rightarrow> Inl err
      | Inr uuid \<Rightarrow>
         (let pvcName = InstanceStoragePVCNamePrefix @ uuid;
              vmv = \<lparr>vol_Name = pvcName,
                     PersistentVolumeClaim = Some
                       \<lparr>ClaimName = pvcName, ReadOnly = False,
                        InstanceVolumeClaim = Some
                          \<lparr>ivc_StorageClass = sc, ivc_Size = isv_Size isv\<rparr>\<rparr>\<rparr>
          in instanceStoragePVCs w sc (Suc n) (pvcs @ [vmv]) rest))"

definition addInstanceStorageSpec ::
  "world \<Rightarrow> VirtualMachine \<Rightarrow> InstanceStorage \<Rightarrow> error option \<times> VirtualMachine" where
  "addInstanceStorageSpec w vm instanceStorage =
     (case instanceStoragePVCs w (is_StorageClass instanceStorage) 0 [] (is_Volumes instanceStorage) of
        Inl err \<Rightarrow> (Some err, vm)
      | Inr pvcs \<Rightarrow> (None, vm\<lparr>Spec := (Spec vm)\<lparr>Volumes := Volumes (Spec vm) @ pvcs\<rparr>\<rparr>))"

definition reconcileInstanceStorageSpec ::
  "world \<Rightarrow> VirtualMachine \<Rightarrow> VirtualMachineClass \<Rightarrow> error option \<times> VirtualMachine" where
  "reconcileInstanceStorageSpec w vm vmClass =
     (if \<not> IsInstanceStorageFSSEnabled w then (None, vm)
      else if Phase (Status vm) = Created then (None, vm)
      else if IsConfigured vm then (None, vm)
      else
        (let instanceStorage = class_InstanceStorage vmClass in
         if length (is_Volumes instanceStorage) = 0 then (None, vm)
         else addInstanceStorageSpec w vm instanceStorage))"

subsection \<open>createOrUpdateVM\<close>

text \<open>
  \<open>createOrUpdateVM\<close> is embedded in four pieces, in the order of the source: the
  resolution of the prerequisites (lines 637 to 678), the question to the provider and the
  admission to the bounded set of creates (lines 680 to 709), the create itself (lines 711
  to 725), and the tail both paths share (lines 727 to 742).
\<close>

definition createOrUpdateVM_prereqs ::
  "world \<Rightarrow> Reconciler \<Rightarrow> VirtualMachine \<Rightarrow> (error + VMConfigArgs) \<times> Reconciler \<times> VirtualMachine" where
  "createOrUpdateVM_prereqs w r vm =
     (case getVMClass w r vm of
        (Inl err, r1, vm1) \<Rightarrow> (Inl err, r1, vm1)
      | (Inr vmClass, r1, vm1) \<Rightarrow>
     (case reconcileInstanceStorageSpec w vm1 vmClass of
        (Some err, vm2) \<Rightarrow> (Inl err, r1, vm2)
      | (None, vm2) \<Rightarrow>
     (case getImageAndContentLibraryUUID w r1 vm2 of
        (Inl err, r3, vm3) \<Rightarrow> (Inl err, r3, vm3)
      | (Inr (vmImage, clUUID), r3, vm3) \<Rightarrow>
     (case getVMMetadata w r3 vm3 of
        (Inl err, r4) \<Rightarrow> (Inl err, r4, vm3)
      | (Inr vmMetadata, r4) \<Rightarrow>
     (case getResourcePolicy w r4 vm3 of
        (Inl err, r5) \<Rightarrow> (Inl err, r5, vm3)
      | (Inr resourcePolicy, r5) \<Rightarrow>
     (case getStoragePolicyID w r5 vm3 of
        (Inl err, r6) \<Rightarrow> (Inl err, r6, vm3)
      | (Inr storagePolicyID, r6) \<Rightarrow>
          (Inr \<lparr>args_VMClass = vmClass, args_VMImage = vmImage, args_VMMetadata = vmMetadata,
                args_ResourcePolicy = resourcePolicy, args_StorageProfileID = storagePolicyID,
                args_ContentLibraryUUID = clUUID\<rparr>,
           r6, MarkTrue vm3 VirtualMachinePrereqReadyCondition)))))))"

definition createOrUpdateVM_update ::
  "world \<Rightarrow> Reconciler \<Rightarrow> VirtualMachine \<Rightarrow> VMConfigArgs
     \<Rightarrow> error option \<times> Reconciler \<times> VirtualMachine" where
  "createOrUpdateVM_update w r vm vmConfigArgs =
     (if IsInstanceStorageFSSEnabled w \<and> \<not> findInstanceStorageVMPlacementStatus vm
      then (None, r, vm)
      else
        (let vm1 = setPhase vm Created;
             r1 = logCall r ProviderUpdate in
         case UpdateVirtualMachine w vm1 vmConfigArgs of
           (Some err, st) \<Rightarrow>
             (Some err, logCall r1 (EmitEvent ''Update'' (Some err)), vm1\<lparr>Status := st\<rparr>)
         | (None, st) \<Rightarrow> (None, r1, vm1\<lparr>Status := st\<rparr>)))"

definition createOrUpdateVM_create ::
  "world \<Rightarrow> Reconciler \<Rightarrow> VirtualMachine \<Rightarrow> VMConfigArgs
     \<Rightarrow> error option \<times> Reconciler \<times> VirtualMachine" where
  "createOrUpdateVM_create w r vm vmConfigArgs =
     (if (case args_ResourcePolicy vmConfigArgs of
            None \<Rightarrow> False
          | Some resourcePolicy \<Rightarrow> \<not> IsZero (rp_DeletionTimestamp resourcePolicy))
      then
        (let err = Errorf ''cannot create VirtualMachine with its resource policy in DELETING state''
         in (Some err, logCall r (EmitEvent ''Create'' (Some err)), vm))
      else
        (let r1 = logCall r ProviderCreate in
         case CreateVirtualMachine w vm vmConfigArgs of
           (Some err, st) \<Rightarrow>
             (Some err, logCall r1 (EmitEvent ''Create'' (Some err)), vm\<lparr>Status := st\<rparr>)
         | (None, st) \<Rightarrow> createOrUpdateVM_update w r1 (vm\<lparr>Status := st\<rparr>) vmConfigArgs))"

text \<open>
  The slot taken at line 702 is given back by the deferred function of lines 705 to 709
  on every return after it.
\<close>

definition createOrUpdateVM ::
  "world \<Rightarrow> Reconciler \<Rightarrow> VirtualMachine \<Rightarrow> error option \<times> Reconciler \<times> VirtualMachine" where
  "createOrUpdateVM w r vm =
     (case createOrUpdateVM_prereqs w r vm of
        (Inl err, r1, vm1) \<Rightarrow> (Some err, r1, vm1)
      | (Inr vmConfigArgs, r1, vm1) \<Rightarrow>
         (let r2 = logCall r1 ProviderExists in
          case DoesVirtualMachineExist w vm1 of
            Inl err \<Rightarrow> (Some err, r2, vm1)
          | Inr exists \<Rightarrow>
              if \<not> exists then
                (let vm2 = setPhase vm1 Creating in
                 if NumVMsBeingCreatedOnProvider r2 \<ge> MaxConcurrentCreateVMsOnProvider r2
                 then (None, r2, vm2)
                 else
                   (let r3 = r2\<lparr>NumVMsBeingCreatedOnProvider := NumVMsBeingCreatedOnProvider r2 + 1\<rparr> in
                    case createOrUpdateVM_create w r3 vm2 vmConfigArgs of
                      (err, r4, vm3) \<Rightarrow>
                        (err, r4\<lparr>NumVMsBeingCreatedOnProvider := NumVMsBeingCreatedOnProvider r4 - 1\<rparr>, vm3)))
              else createOrUpdateVM_update w r2 vm1 vmConfigArgs))"

subsection \<open>The reconcile paths\<close>

text \<open>
  \<open>deleteVM\<close>: the deferred \<open>EmitEvent\<close> sees the error the function returns, nil when the
  provider's NotFound was taken as success.
\<close>

definition deleteVM :: "world \<Rightarrow> Reconciler \<Rightarrow> VirtualMachine \<Rightarrow> error option \<times> Reconciler" where
  "deleteVM w r vm =
     (let r1 = logCall r ProviderDelete in
      case DeleteVirtualMachine w vm of
        Some err \<Rightarrow>
          if IsNotFound err then (None, logCall r1 (EmitEvent ''Delete'' None))
          else (Some err, logCall r1 (EmitEvent ''Delete'' (Some err)))
      | None \<Rightarrow> (None, logCall r1 (EmitEvent ''Delete'' None)))"

definition ReconcileDelete ::
  "world \<Rightarrow> Reconciler \<Rightarrow> VirtualMachine \<Rightarrow> error option \<times> Reconciler \<times> VirtualMachine" where
  "ReconcileDelete w r vm =
     (if ContainsFinalizer vm finalizerName then
        (let vm1 = setPhase vm Deleting in
         case deleteVM w r vm1 of
           (Some err, r1) \<Rightarrow> (Some err, r1, vm1)
         | (None, r1) \<Rightarrow>
             (None, logCall r1 ProberRemove,
              RemoveFinalizer (setPhase vm1 Deleted) finalizerName))
      else (None, logCall r ProberRemove, vm))"

definition ReconcileNormal ::
  "world \<Rightarrow> Reconciler \<Rightarrow> VirtualMachine \<Rightarrow> error option \<times> Reconciler \<times> VirtualMachine" where
  "ReconcileNormal w r vm =
     (if \<not> ContainsFinalizer vm finalizerName then (None, r, AddFinalizer vm finalizerName)
      else
        (case createOrUpdateVM w r vm of
           (Some err, r1, vm1) \<Rightarrow> (Some err, r1, vm1)
         | (None, r1, vm1) \<Rightarrow> (None, logCall r1 ProberAdd, vm1)))"

text \<open>
  \<open>Reconcile\<close> answers with a \<open>ctrl.Result\<close>, the error, and the VirtualMachine as the
  pass left it in memory (none when the object could not be read). The deferred patch
  runs on every return after the patch helper was made; its error is returned only when
  the reconcile itself had none.
\<close>

record Result =
  Requeue :: bool
  RequeueAfter :: Duration

definition emptyResult :: Result where
  "emptyResult = \<lparr>Requeue = False, RequeueAfter = 0\<rparr>"

definition Reconcile ::
  "world \<Rightarrow> Reconciler \<Rightarrow> string \<Rightarrow> string
     \<Rightarrow> Result \<times> error option \<times> Reconciler \<times> VirtualMachine option" where
  "Reconcile w r namespace name =
     (let r0 = logCall r (ClientGet ''VirtualMachine'' namespace name) in
      case GetVirtualMachine w namespace name of
        Inl err \<Rightarrow> (emptyResult, IgnoreNotFound err, r0, None)
      | Inr vm \<Rightarrow>
          if hasKey (vm_Annotations vm) PauseAnnotation then (emptyResult, None, r0, Some vm)
          else
            (case NewHelper w vm of
               Some err \<Rightarrow>
                 (emptyResult,
                  Some (Wrap err (''failed to init patch helper for '' @ vm_Namespace vm @ ''/'' @ vm_Name vm)),
                  r0, Some vm)
             | None \<Rightarrow>
                (case (if \<not> IsZero (vm_DeletionTimestamp vm) then
                         (case ReconcileDelete w r0 vm of
                            (err, r1, vm1) \<Rightarrow> (emptyResult, err, r1, vm1))
                       else
                         (case ReconcileNormal w r0 vm of
                            (Some err, r1, vm1) \<Rightarrow> (emptyResult, Some err, r1, vm1)
                          | (None, r1, vm1) \<Rightarrow>
                              (\<lparr>Requeue = False, RequeueAfter = requeueDelay vm1\<rparr>, None, r1, vm1))) of
                   (result, reterr, r1, vm1) \<Rightarrow>
                     (case Patch w vm1 of
                        Some err \<Rightarrow>
                          (result, (if reterr = None then Some err else reterr), r1, Some vm1)
                      | None \<Rightarrow> (result, reterr, r1, Some vm1)))))"

section \<open>The VirtualMachineService controller: endpoints\<close>

text \<open>
  The objects \<open>updateEndpoints\<close> reads and writes, with the fields it uses. An owner
  reference keeps its kind, name and UID.
\<close>

record ObjectMeta =
  om_Namespace :: string
  om_Name :: string
  om_Labels :: "(string \<times> string) list"
  om_Annotations :: "(string \<times> string) list"
  om_OwnerReferences :: "OwnerReference list"
  om_ResourceVersion :: string

record VirtualMachineService =
  vms_Name :: string
  vms_Namespace :: string
  vms_UID :: string
  vms_APIVersion :: string
  vms_Kind :: string
  vms_ResourceVersion :: string
  vms_Labels :: "(string \<times> string) list"
  vms_Annotations :: "(string \<times> string) list"
  vms_Selector :: "(string \<times> string) list"

record ServicePort =
  sp_Name :: string
  sp_Protocol :: string
  sp_Port :: int
  sp_TargetPort :: IntOrString

record Service =
  service_Name :: string
  service_Namespace :: string
  service_Labels :: "(string \<times> string) list"
  service_Ports :: "ServicePort list"

record ObjectReference =
  oref_APIVersion :: string
  oref_Kind :: string
  oref_Namespace :: string
  oref_Name :: string
  oref_UID :: string
  oref_ResourceVersion :: string

record EndpointAddress =
  epa_IP :: string
  epa_TargetRef :: "ObjectReference option"

record EndpointPort =
  epp_Name :: string
  epp_Port :: int
  epp_Protocol :: string

record EndpointSubset =
  Addresses :: "EndpointAddress list"
  Ports :: "EndpointPort list"

record Endpoints =
  ep_ObjectMeta :: ObjectMeta
  Subsets :: "EndpointSubset list"

text \<open>A write of the Endpoints object through the client.\<close>

datatype endpointsWrite = CreatedEndpoints Endpoints | UpdatedEndpoints Endpoints

text \<open>
  What the service controller's collaborators answer: the client's list of the selected
  VirtualMachines, its read and writes of the Endpoints, the annotations \<open>pkg.AddAnnotations\<close>
  adds (pkg is not in the sources), and the network behind \<open>checkConnection\<close>: the error of
  the dial and close, or nil, for a protocol, a host, a port and a timeout (the port is
  kept as the number \<open>strconv.Itoa\<close> prints).
\<close>

record svc_world =
  ListVirtualMachine :: "string \<Rightarrow> (string \<times> string) list \<Rightarrow> error + VirtualMachine list"
  GetEndpoints :: "string \<Rightarrow> string \<Rightarrow> error + Endpoints"
  ClientCreateEndpoints :: "Endpoints \<Rightarrow> error option"
  ClientUpdateEndpoints :: "Endpoints \<Rightarrow> error option"
  AddAnnotations :: "(string \<times> string) list \<Rightarrow> (string \<times> string) list"
  checkConnection :: "string \<Rightarrow> string \<Rightarrow> int \<Rightarrow> Duration \<Rightarrow> error option"

definition ServiceOwnerRefKind :: string where
  "ServiceOwnerRefKind = ''VirtualMachineService''"

definition defaultConnectTimeout :: Duration where
  "defaultConnectTimeout = Second * 10"

definition probeFailureRequeueTime :: Duration where
  "probeFailureRequeueTime = Second * 10"

definition ProtocolTCP :: string where
  "ProtocolTCP = ''TCP''"

definition MakeObjectMeta :: "svc_world \<Rightarrow> VirtualMachineService \<Rightarrow> ObjectMeta" where
  "MakeObjectMeta w vmService =
     \<lparr>om_Namespace = vms_Namespace vmService,
      om_Name = vms_Name vmService,
      om_Labels = vms_Labels vmService,
      om_Annotations = AddAnnotations w (vms_Annotations vmService),
      om_OwnerReferences =
        [\<lparr>ref_Kind = ServiceOwnerRefKind, ref_Name = vms_Name vmService, ref_UID = vms_UID vmService\<rparr>],
      om_ResourceVersion = []\<rparr>"

definition makeEndpoints ::
  "svc_world \<Rightarrow> VirtualMachineService \<Rightarrow> Endpoints \<Rightarrow> EndpointSubset list \<Rightarrow> Endpoints" where
  "makeEndpoints w vmService currentEndpoints subsets =
     currentEndpoints\<lparr>ep_ObjectMeta := MakeObjectMeta w vmService, Subsets := subsets\<rparr>"

definition makeEndpointAddress :: "VirtualMachineService \<Rightarrow> VirtualMachine \<Rightarrow> EndpointAddress" where
  "makeEndpointAddress vmService vm =
     \<lparr>epa_IP = VmIp (Status vm),
      epa_TargetRef = Some
        \<lparr>oref_APIVersion = vms_APIVersion vmService,
         oref_Kind = vms_Kind vmService,
         oref_Namespace = vms_Namespace vmService,
         oref_Name = vms_Name vmService,
         oref_UID = vms_UID vmService,
         oref_ResourceVersion = vms_ResourceVersion vmService\<rparr>\<rparr>"

definition findPort :: "VirtualMachine \<Rightarrow> IntOrString \<Rightarrow> string \<Rightarrow> error + int" where
  "findPort vm portName portProto =
     (case portName of
        IntVal i \<Rightarrow> Inr i
      | StrVal name \<Rightarrow>
          (case find (\<lambda>port. port_Name port = name \<and> port_Protocol port = portProto)
                  (spec_Ports (Spec vm)) of
             Some port \<Rightarrow> Inr (port_Port port)
           | None \<Rightarrow> Inl (Errorf (''no suitable port for manifest: '' @ vm_UID vm))))"

definition addEndpointSubset ::
  "EndpointSubset list \<Rightarrow> EndpointAddress \<Rightarrow> EndpointPort option \<Rightarrow> EndpointSubset list" where
  "addEndpointSubset subsets epa epp =
     subsets @ [\<lparr>Addresses = [epa],
                 Ports = (case epp of None \<Rightarrow> [] | Some p \<Rightarrow> [p])\<rparr>]"

definition runProbe ::
  "svc_world \<Rightarrow> VirtualMachineService \<Rightarrow> VirtualMachine \<Rightarrow> Probe option \<Rightarrow> error option" where
  "runProbe w vmService vm p =
     (case p of
        None \<Rightarrow> None
      | Some probe \<Rightarrow>
         (case TCPSocket probe of
            Some tcp \<Rightarrow>
              (case findPort vm (tcp_Port tcp) ProtocolTCP of
                 Inl err \<Rightarrow> Some err
               | Inr portNum \<Rightarrow>
                  (let host = (if tcp_Host tcp \<noteq> [] then tcp_Host tcp else VmIp (Status vm));
                       timeout = (if TimeoutSeconds probe \<le> 0 then defaultConnectTimeout
                                  else TimeoutSeconds probe * Second)
                   in checkConnection w ''tcp'' host portNum timeout))
          | None \<Rightarrow>
              Some (Errorf (''unknown action specified for probe in VirtualMachine ''
                            @ vm_Namespace vm @ ''/'' @ vm_Name vm))))"

text \<open>The conversion \<open>int32(n)\<close> of a Go \<open>int\<close>: the value of its low 32 bits, signed.\<close>

definition int32 :: "int \<Rightarrow> int" where
  "int32 n = (n + 2147483648) mod 4294967296 - 2147483648"

text \<open>The inner loop of \<open>updateEndpoints\<close>, over the ports of the service (lines 577 to 593).\<close>

fun endpointPorts ::
  "VirtualMachine \<Rightarrow> EndpointAddress \<Rightarrow> ServicePort list \<Rightarrow> EndpointSubset list
     \<Rightarrow> EndpointSubset list" where
  "endpointPorts vm epa [] subsets = subsets"
| "endpointPorts vm epa (servicePort # rest) subsets =
     (case findPort vm (sp_TargetPort servicePort) (sp_Protocol servicePort) of
        Inl err \<Rightarrow> endpointPorts vm epa rest subsets
      | Inr portNum \<Rightarrow>
          endpointPorts vm epa rest
            (addEndpointSubset subsets epa
               (Some \<lparr>epp_Name = sp_Name servicePort, epp_Port = int32 portNum,
                       epp_Protocol = sp_Protocol servicePort\<rparr>)))"

text \<open>
  The outer loop, over the selected VirtualMachines (lines 544 to 594), with the count of
  failed probes and the subsets built so far.
\<close>

fun endpointVMs ::
  "svc_world \<Rightarrow> VirtualMachineService \<Rightarrow> Service \<Rightarrow> VirtualMachine list
     \<Rightarrow> int \<times> EndpointSubset list \<Rightarrow> int \<times> EndpointSubset list" where
  "endpointVMs w vmService service [] acc = acc"
| "endpointVMs w vmService service (vm # rest) (probeFailureCount, subsets) =
     (if vm_DeletionTimestamp vm \<noteq> None then
        endpointVMs w vmService service rest (probeFailureCount, subsets)
      else if length (VmIp (Status vm)) = 0 then
        endpointVMs w vmService service rest (probeFailureCount, subsets)
      else if Host (Status vm) = [] then
        endpointVMs w vmService service rest (probeFailureCount, subsets)
      else
        (case runProbe w vmService vm (ReadinessProbe (Spec vm)) of
           Some err \<Rightarrow> endpointVMs w vmService service rest (probeFailureCount + 1, subsets)
         | None \<Rightarrow>
             endpointVMs w vmService service rest
               (probeFailureCount,
                endpointPorts vm (makeEndpointAddress vmService vm) (service_Ports service) subsets)))"

text \<open>
  \<open>updateEndpoints\<close> answers with its error and the writes it made. The comparison of
  line 617 is semantic deep equality, under which a nil and an empty slice are equal: the
  equality of the two lists.
\<close>

definition writeEndpoints ::
  "svc_world \<Rightarrow> VirtualMachineService \<Rightarrow> Endpoints \<Rightarrow> EndpointSubset list \<Rightarrow> error option
     \<Rightarrow> error option \<times> endpointsWrite list" where
  "writeEndpoints w vmService currentEndpoints subsets updateErr =
     (let newEndpoints = makeEndpoints w vmService currentEndpoints subsets;
          createEndpoints = (length (om_ResourceVersion (ep_ObjectMeta currentEndpoints)) = 0)
      in if createEndpoints then
           (case ClientCreateEndpoints w newEndpoints of
              Some err \<Rightarrow> (Some err, [CreatedEndpoints newEndpoints])
            | None \<Rightarrow> (updateErr, [CreatedEndpoints newEndpoints]))
         else
           (case ClientUpdateEndpoints w newEndpoints of
              Some err \<Rightarrow> (Some err, [UpdatedEndpoints newEndpoints])
            | None \<Rightarrow> (updateErr, [UpdatedEndpoints newEndpoints])))"

definition updateEndpoints ::
  "svc_world \<Rightarrow> VirtualMachineService \<Rightarrow> Service \<Rightarrow> error option \<times> endpointsWrite list" where
  "updateEndpoints w vmService service =
     (case ListVirtualMachine w (vms_Namespace vmService) (vms_Selector vmService) of
        Inl err \<Rightarrow> (Some err, [])
      | Inr items \<Rightarrow>
         (case endpointVMs w vmService service items (0, []) of
            (probeFailureCount, subsets) \<Rightarrow>
              (let updateErr =
                     (if probeFailureCount > 0 \<and> probeFailureCount = int (length items)
                      then Some (RequeueAfterError probeFailureRequeueTime) else None)
               in case GetEndpoints w (service_Namespace service) (service_Name service) of
                    Inl err \<Rightarrow>
                      if \<not> IsNotFound err then (Some err, [])
                      else
                        writeEndpoints w vmService
                          \<lparr>ep_ObjectMeta =
                             \<lparr>om_Namespace = [], om_Name = service_Name service,
                              om_Labels = service_Labels service, om_Annotations = [],
                              om_OwnerReferences = [], om_ResourceVersion = []\<rparr>,
                           Subsets = []\<rparr>
                          subsets updateErr
                  | Inr currentEndpoints \<Rightarrow>
                      if Subsets currentEndpoints = subsets then (updateErr, [])
                      else writeEndpoints w vmService currentEndpoints subsets updateErr)))"

text \<open>
  How the service controller's \<open>Reconcile\<close> turns the error of \<open>reconcileVmService\<close>, which
  returns the error of \<open>updateEndpoints\<close> as it is, into its answer (lines 221 to 230 of the
  service controller).
\<close>

definition reconcileAnswer :: "error option \<Rightarrow> Result \<times> error option" where
  "reconcileAnswer err =
     (case err of
        None \<Rightarrow> (emptyResult, None)
      | Some (RequeueAfterError d) \<Rightarrow> (\<lparr>Requeue = False, RequeueAfter = d\<rparr>, None)
      | Some e \<Rightarrow> (emptyResult, Some e))"

section \<open>Observing a reconcile\<close>

text \<open>
  Between the Reconciler \<open>r\<close> before a function and the Reconciler \<open>r'\<close> after it:
  \<open>madeOnly P r r'\<close> says that the log grew by calls that all satisfy \<open>P\<close>,
  \<open>sameCounters r r'\<close> that the in-flight count and its bound are as they were.
\<close>

definition madeOnly :: "(call \<Rightarrow> bool) \<Rightarrow> Reconciler \<Rightarrow> Reconciler \<Rightarrow> bool" where
  "madeOnly P r r' =
     (take (length (calls r)) (calls r') = calls r
      \<and> list_all P (drop (length (calls r)) (calls r')))"

definition sameCounters :: "Reconciler \<Rightarrow> Reconciler \<Rightarrow> bool" where
  "sameCounters r r' =
     (NumVMsBeingCreatedOnProvider r' = NumVMsBeingCreatedOnProvider r
      \<and> MaxConcurrentCreateVMsOnProvider r' = MaxConcurrentCreateVMsOnProvider r)"

definition quiet :: "(call \<Rightarrow> bool) \<Rightarrow> Reconciler \<Rightarrow> Reconciler \<Rightarrow> bool" where
  "quiet P r r' = (sameCounters r r' \<and> madeOnly P r r')"

abbreviation clientOnly :: "call \<Rightarrow> bool" where
  "clientOnly \<equiv> (\<lambda>c. \<not> isProviderCall c)"

abbreviation noWrite :: "call \<Rightarrow> bool" where
  "noWrite \<equiv> (\<lambda>c. \<not> isProviderCall c \<or> c = ProviderIsResourcePolicyReady)"

text \<open>The order of the phases: unset, Creating, Created, Deleting, Deleted.\<close>

fun phaseRank :: "VMStatusPhase \<Rightarrow> nat" where
  "phaseRank PhaseUnset = 0"
| "phaseRank Creating = 1"
| "phaseRank Created = 2"
| "phaseRank Deleting = 3"
| "phaseRank Deleted = 4"

text \<open>
  A VirtualMachine whose phase agrees with its deletion state: Deleting and Deleted only
  on an object that has a deletion timestamp, Deleted only once the finalizer is gone.
\<close>

definition phaseConsistent :: "VirtualMachine \<Rightarrow> bool" where
  "phaseConsistent vm =
     ((Phase (Status vm) = Deleting \<or> Phase (Status vm) = Deleted
         \<longrightarrow> \<not> IsZero (vm_DeletionTimestamp vm))
      \<and> (Phase (Status vm) = Deleted \<longrightarrow> \<not> ContainsFinalizer vm finalizerName))"

section \<open>Concrete objects\<close>

text \<open>
  A VirtualMachine, a Reconciler and a world in which every prerequisite resolves, used
  to run the functions above on concrete inputs.
\<close>

definition freshVM :: VirtualMachine where
  "freshVM =
     \<lparr>vm_Name = ''vm'', vm_Namespace = ''ns'', vm_UID = ''uid-1'', vm_Labels = [],
      vm_Annotations = [], vm_Finalizers = [], vm_DeletionTimestamp = None,
      Spec = \<lparr>ImageName = ''photon'', ClassName = ''small'', spec_PowerState = VirtualMachinePoweredOn,
               spec_Ports = [], VmMetadata = None, StorageClass = [], Volumes = [],
               ReadinessProbe = None, ResourcePolicyName = []\<rparr>,
      Status = \<lparr>Host = [], PowerState = PowerStateUnset, Phase = PhaseUnset, VmIp = [],
                 Conditions = []\<rparr>\<rparr>"

definition readyVM :: VirtualMachine where
  "readyVM = freshVM\<lparr>vm_Finalizers := [finalizerName]\<rparr>"

definition r0 :: Reconciler where
  "r0 = \<lparr>NumVMsBeingCreatedOnProvider = 0, MaxConcurrentCreateVMsOnProvider = 1, calls = []\<rparr>"

definition class0 :: VirtualMachineClass where
  "class0 = \<lparr>class_Name = ''small'',
             class_InstanceStorage = \<lparr>is_StorageClass = [], is_Volumes = []\<rparr>\<rparr>"

definition image0 :: VirtualMachineImage where
  "image0 = \<lparr>image_Name = ''photon'',
             image_OwnerReferences =
               [\<lparr>ref_Kind = ''ContentLibraryProvider'', ref_Name = ''cl'', ref_UID = ''uid-2''\<rparr>]\<rparr>"

definition clp0 :: ContentLibraryProvider where
  "clp0 = \<lparr>clp_Name = ''cl'', clp_UUID = ''cl-uuid'',
           clp_OwnerReferences =
             [\<lparr>ref_Kind = ''ContentSource'', ref_Name = ''cs'', ref_UID = ''uid-3''\<rparr>]\<rparr>"

definition notFound :: error where
  "notFound = StatusError StatusReasonNotFound ''not found''"

definition world0 :: world where
  "world0 =
     \<lparr>IsVMServiceFSSEnabled = True,
      IsInstanceStorageFSSEnabled = False,
      GetVirtualMachine = (\<lambda>namespace name. Inr readyVM),
      GetVirtualMachineClass = (\<lambda>name. if name = ''small'' then Inr class0 else Inl notFound),
      ListVirtualMachineClassBinding =
        (\<lambda>namespace. Inr [\<lparr>ClassRef_Kind = ''VirtualMachineClass'', ClassRef_Name = ''small''\<rparr>]),
      GetVirtualMachineImage = (\<lambda>name. if name = ''photon'' then Inr image0 else Inl notFound),
      GetContentLibraryProvider = (\<lambda>name. if name = ''cl'' then Inr clp0 else Inl notFound),
      GetContentSource = (\<lambda>name. if name = ''cs'' then Inr \<lparr>cs_Name = ''cs''\<rparr> else Inl notFound),
      ListContentSourceBinding =
        (\<lambda>namespace. Inr [\<lparr>ContentSourceRef_Kind = ''ContentSource'', ContentSourceRef_Name = ''cs''\<rparr>]),
      GetConfigMap = (\<lambda>namespace name. Inl notFound),
      GetSecret = (\<lambda>namespace name. Inl notFound),
      GetVirtualMachineSetResourcePolicy =
        (\<lambda>namespace name. Inr \<lparr>rp_Name = name, rp_DeletionTimestamp = Some 7\<rparr>),
      GetStorageClass = (\<lambda>name. Inl notFound),
      NewUUID = (\<lambda>n. Inr ''uuid''),
      DurationString = (\<lambda>d. ''10s''),
      FormatNoOperands = (\<lambda>format. format),
      NewHelper = (\<lambda>vm. None),
      Patch = (\<lambda>vm. None),
      DoesVirtualMachineExist = (\<lambda>vm. Inr False),
      CreateVirtualMachine = (\<lambda>vm vmConfigArgs. (None, Status vm)),
      UpdateVirtualMachine = (\<lambda>vm vmConfigArgs. (None, Status vm)),
      DeleteVirtualMachine = (\<lambda>vm. None),
      IsVirtualMachineSetResourcePolicyReady = (\<lambda>zone resourcePolicy. Inr True)\<rparr>"

text \<open>
  The bundle the prerequisites of \<open>readyVM\<close> resolve to in \<open>world0\<close>; a Reconciler with
  no create slot left; a VirtualMachine bound to a resource policy (which \<open>world0\<close> answers
  with a deletion timestamp); a VirtualMachine whose metadata names both a config map and
  a secret; a content library provider without owner references.
\<close>

definition args0 :: VMConfigArgs where
  "args0 =
     \<lparr>args_VMClass = class0, args_VMImage = image0,
      args_VMMetadata = \<lparr>md_Data = [], md_Transport = []\<rparr>,
      args_ResourcePolicy = None, args_StorageProfileID = [],
      args_ContentLibraryUUID = ''cl-uuid''\<rparr>"

definition fullReconciler :: Reconciler where
  "fullReconciler = \<lparr>NumVMsBeingCreatedOnProvider = 2, MaxConcurrentCreateVMsOnProvider = 2, calls = []\<rparr>"

definition policyVM :: VirtualMachine where
  "policyVM = readyVM\<lparr>Spec := (Spec readyVM)\<lparr>ResourcePolicyName := ''rp''\<rparr>\<rparr>"

definition conflictVM :: VirtualMachine where
  "conflictVM =
     readyVM\<lparr>Spec := (Spec readyVM)\<lparr>VmMetadata :=
       Some \<lparr>ConfigMapName = ''cm'', SecretName = ''sec'', Transport = []\<rparr>\<rparr>\<rparr>"

definition plainCLP :: ContentLibraryProvider where
  "plainCLP = \<lparr>clp_Name = ''cl'', clp_UUID = ''cl-uuid'', clp_OwnerReferences = []\<rparr>"

text \<open>
  A service selecting one VirtualMachine that has an address and a host and whose TCP
  readiness probe cannot connect, and an Endpoints object that still lists an address.
\<close>

definition probedVM :: VirtualMachine where
  "probedVM =
     readyVM\<lparr>Spec := (Spec readyVM)\<lparr>ReadinessProbe :=
             Some \<lparr>TCPSocket = Some \<lparr>tcp_Port = IntVal 80, tcp_Host = []\<rparr>, TimeoutSeconds = 0\<rparr>\<rparr>,
          Status := (Status readyVM)\<lparr>Host := ''host-1'', VmIp := ''10.0.0.5''\<rparr>\<rparr>"

definition vmService0 :: VirtualMachineService where
  "vmService0 =
     \<lparr>vms_Name = ''svc'', vms_Namespace = ''ns'', vms_UID = ''uid-9'', vms_APIVersion = ''v1alpha1'',
      vms_Kind = ''VirtualMachineService'', vms_ResourceVersion = ''1'', vms_Labels = [],
      vms_Annotations = [], vms_Selector = []\<rparr>"

definition service0 :: Service where
  "service0 =
     \<lparr>service_Name = ''svc'', service_Namespace = ''ns'', service_Labels = [],
      service_Ports = [\<lparr>sp_Name = ''http'', sp_Protocol = ''TCP'', sp_Port = 80,
                        sp_TargetPort = IntVal 80\<rparr>]\<rparr>"

definition endpoints0 :: Endpoints where
  "endpoints0 =
     \<lparr>ep_ObjectMeta = \<lparr>om_Namespace = ''ns'', om_Name = ''svc'', om_Labels = [], om_Annotations = [],
                       om_OwnerReferences = [], om_ResourceVersion = ''41''\<rparr>,
      Subsets = [\<lparr>Addresses = [\<lparr>epa_IP = ''10.0.0.5'', epa_TargetRef = None\<rparr>],
                  Ports = [\<lparr>epp_Name = ''http'', epp_Port = 80, epp_Protocol = ''TCP''\<rparr>]\<rparr>]\<rparr>"

definition connectionRefused :: error where
  "connectionRefused = Errorf ''dial tcp: connection refused''"

definition svc_world0 :: svc_world where
  "svc_world0 =
     \<lparr>ListVirtualMachine = (\<lambda>namespace selector. Inr [probedVM]),
      GetEndpoints = (\<lambda>namespace name. Inr endpoints0),
      ClientCreateEndpoints = (\<lambda>endpoints. None),
      ClientUpdateEndpoints = (\<lambda>endpoints. None),
      AddAnnotations = (\<lambda>annotations. annotations),
      checkConnection = (\<lambda>proto host port timeout. Some connectionRefused)\<rparr>"

section \<open>The calls a function makes\<close>

lemma madeOnly_iff: "madeOnly P r r' \<longleftrightarrow> (\<exists>cs. calls r' = calls r @ cs \<and> list_all P cs)"
  unfolding madeOnly_def
  by (metis append_eq_conv_conj append_take_drop_id)

lemma quiet_refl [simp]: "quiet P r r"
  by (simp add: quiet_def sameCounters_def madeOnly_def)

lemma quiet_trans: "quiet P r r1 \<Longrightarrow> quiet P r1 r2 \<Longrightarrow> quiet P r r2"
  unfolding quiet_def sameCounters_def madeOnly_iff by auto

lemma quiet_logCall: "P c \<Longrightarrow> quiet P r (logCall r c)"
  unfolding quiet_def sameCounters_def madeOnly_iff by (simp add: logCall_def)

lemma quiet_logCall': "P c \<Longrightarrow> quiet P r r1 \<Longrightarrow> quiet P r (logCall r1 c)"
  by (blast intro: quiet_trans quiet_logCall)

lemma quiet_mono: "quiet P r r' \<Longrightarrow> (\<And>c. P c \<Longrightarrow> Q c) \<Longrightarrow> quiet Q r r'"
  unfolding quiet_def madeOnly_def by (auto simp: list_all_iff)

lemma quiet_filter:
  "quiet P r r' \<Longrightarrow> (\<And>c. P c \<Longrightarrow> \<not> Q c) \<Longrightarrow> filter Q (calls r') = filter Q (calls r)"
  unfolding quiet_def madeOnly_iff by (auto simp: list_all_iff filter_empty_conv)

lemma getVMClass_quiet:
  "getVMClass w r vm = (res, r', vm') \<Longrightarrow> quiet clientOnly r r'"
  by (auto simp: getVMClass_def Let_def intro!: quiet_logCall quiet_logCall' split: sum.splits if_splits)

lemma getImage_CLP_quiet:
  "getContentLibraryProviderFromImage w r i = (res, r') \<Longrightarrow> quiet clientOnly r r'"
  by (auto simp: getContentLibraryProviderFromImage_def Let_def intro!: quiet_logCall quiet_logCall' split: sum.splits if_splits option.splits)

lemma getCS_quiet:
  "getContentSourceFromCLProvider w r i = (res, r') \<Longrightarrow> quiet clientOnly r r'"
  by (auto simp: getContentSourceFromCLProvider_def Let_def intro!: quiet_logCall quiet_logCall' split: sum.splits if_splits option.splits)

lemma quiet_Get: "quiet clientOnly r (logCall r (ClientGet k n m))"
  by (simp add: quiet_logCall)

lemma quiet_List: "quiet clientOnly r (logCall r (ClientList k n))"
  by (simp add: quiet_logCall)

lemma getImage_quiet:
  "getImageAndContentLibraryUUID w r vm = (res, r', vm') \<Longrightarrow> quiet clientOnly r r'"
  unfolding getImageAndContentLibraryUUID_def Let_def
  apply (auto dest!: getImage_CLP_quiet getCS_quiet split: sum.splits if_splits prod.splits)
  apply (blast intro: quiet_trans quiet_Get quiet_List)+
  done

lemma getVMMetadata_quiet:
  "getVMMetadata w r vm = (res, r') \<Longrightarrow> quiet clientOnly r r'"
  by (auto simp: getVMMetadata_def Let_def intro!: quiet_logCall quiet_logCall' split: sum.splits if_splits option.splits)

lemma getResourcePolicy_quiet:
  "getResourcePolicy w r vm = (res, r') \<Longrightarrow>
     quiet (\<lambda>c. \<not> isProviderCall c \<or> c = ProviderIsResourcePolicyReady) r r'"
  by (auto simp: getResourcePolicy_def Let_def intro!: quiet_logCall quiet_logCall' split: sum.splits if_splits option.splits)

lemma getStoragePolicyID_quiet:
  "getStoragePolicyID w r vm = (res, r') \<Longrightarrow> quiet clientOnly r r'"
  by (auto simp: getStoragePolicyID_def Let_def intro!: quiet_logCall quiet_logCall' split: sum.splits if_splits option.splits)


lemma prereqs_quiet:
  assumes "createOrUpdateVM_prereqs w r vm = (res, r', vm')"
  shows "quiet noWrite r r'"
proof -
  have m: "\<And>a b. quiet clientOnly a b \<Longrightarrow> quiet noWrite a b"
    by (erule quiet_mono) simp
  show ?thesis
    using assms unfolding createOrUpdateVM_prereqs_def
    apply (auto split: prod.splits sum.splits option.splits
        dest!: getVMClass_quiet [THEN m] getImage_quiet [THEN m] getVMMetadata_quiet [THEN m]
          getResourcePolicy_quiet getStoragePolicyID_quiet [THEN m])
    apply (blast intro: quiet_trans)+
    done
qed

lemmas concrete_defs = freshVM_def readyVM_def r0_def class0_def image0_def clp0_def notFound_def world0_def
  args0_def fullReconciler_def policyVM_def conflictVM_def plainCLP_def
  finalizerName_def PauseAnnotation_def

lemmas run_defs = createOrUpdateVM_def createOrUpdateVM_prereqs_def createOrUpdateVM_create_def
  createOrUpdateVM_update_def getVMClass_def reconcileInstanceStorageSpec_def
  getImageAndContentLibraryUUID_def getContentLibraryProviderFromImage_def
  getContentSourceFromCLProvider_def getVMMetadata_def getResourcePolicy_def
  getStoragePolicyID_def findInstanceStorageVMPlacementStatus_def
  ReconcileNormal_def ReconcileDelete_def deleteVM_def Reconcile_def
  logCall_def setPhase_def MarkTrue_def MarkFalse_def ContainsFinalizer_def AddFinalizer_def
  RemoveFinalizer_def IsZero_def hasKey_def lookup_def providerCalls_def requeueDelay_def
  emptyResult_def IgnoreNotFound_def IsConfigured_def Let_def

lemma run1: "ReconcileNormal world0 r0 readyVM =
  (None,
   \<lparr>NumVMsBeingCreatedOnProvider = 0, MaxConcurrentCreateVMsOnProvider = 1,
     calls =
       [ClientGet ''VirtualMachineClass'' [] ''small'',
        ClientList ''VirtualMachineClassBinding'' ''ns'',
        ClientGet ''VirtualMachineImage'' [] ''photon'',
        ClientGet ''ContentLibraryProvider'' [] ''cl'',
        ClientGet ''ContentSource'' [] ''cs'',
        ClientList ''ContentSourceBinding'' ''ns'', ProviderExists,
        ProviderCreate, ProviderUpdate, ProberAdd]\<rparr>,
   MarkTrue (setPhase readyVM Created) VirtualMachinePrereqReadyCondition)"
  by (simp add: run_defs concrete_defs VirtualMachinePrereqReadyCondition_def)

section \<open>Properties of the reconcile\<close>

text \<open>
  C1. When the finalizer is absent, \<open>ReconcileNormal\<close> returns nil at once with the
  finalizer added and the Reconciler as it was: no call was made. A pass of
  \<open>ReconcileNormal\<close> that calls the provider at all, a create included, started with the
  finalizer present. A whole \<open>Reconcile\<close> of an object that is not being deleted and has
  no finalizer makes no call on the provider.
\<close>

theorem ReconcileNormal_finalizer_first:
  "(\<not> ContainsFinalizer vm finalizerName \<longrightarrow>
      ReconcileNormal w r vm = (None, r, AddFinalizer vm finalizerName)
      \<and> ContainsFinalizer (AddFinalizer vm finalizerName) finalizerName)
   \<and> (ReconcileNormal w r vm = (err, r', vm') \<and> providerCalls r' \<noteq> providerCalls r
        \<longrightarrow> ContainsFinalizer vm finalizerName)
   \<and> (GetVirtualMachine w namespace name = Inr vm \<and> IsZero (vm_DeletionTimestamp vm)
       \<and> \<not> ContainsFinalizer vm finalizerName
        \<longrightarrow> providerCalls (fst (snd (snd (Reconcile w r namespace name)))) = providerCalls r)"
  by (auto simp: ReconcileNormal_def ContainsFinalizer_def AddFinalizer_def Reconcile_def Let_def
        providerCalls_def logCall_def split: option.splits)

theorem ReconcileNormal_finalizer_first_witness:
  "\<not> ContainsFinalizer freshVM finalizerName
   \<and> ReconcileNormal (world0\<lparr>GetVirtualMachine := \<lambda>namespace name. Inr freshVM\<rparr>) r0 freshVM = (None, r0, readyVM)
   \<and> ContainsFinalizer readyVM finalizerName
   \<and> providerCalls (fst (snd (ReconcileNormal world0 r0 readyVM))) \<noteq> providerCalls r0
   \<and> GetVirtualMachine (world0\<lparr>GetVirtualMachine := \<lambda>namespace name. Inr freshVM\<rparr>) ''ns'' ''vm'' = Inr freshVM
   \<and> IsZero (vm_DeletionTimestamp freshVM)
   \<and> providerCalls (fst (snd (snd (Reconcile (world0\<lparr>GetVirtualMachine := \<lambda>namespace name. Inr freshVM\<rparr>) r0 ''ns'' ''vm''))))
        = providerCalls r0"
proof -
  let ?w = "world0\<lparr>GetVirtualMachine := \<lambda>namespace name. Inr freshVM\<rparr>"
  have h: "\<not> ContainsFinalizer freshVM finalizerName"
    by (simp add: ContainsFinalizer_def freshVM_def)
  have a: "AddFinalizer freshVM finalizerName = readyVM"
    by (simp add: AddFinalizer_def freshVM_def readyVM_def)
  have g: "GetVirtualMachine ?w ''ns'' ''vm'' = Inr freshVM \<and> IsZero (vm_DeletionTimestamp freshVM)"
    by (simp add: world0_def freshVM_def IsZero_def)
  have p: "providerCalls (fst (snd (ReconcileNormal world0 r0 readyVM))) \<noteq> providerCalls r0"
  proof -
    have "providerCalls r0 = []" by (simp add: providerCalls_def r0_def)
    then show ?thesis by (simp add: run1) (simp add: providerCalls_def)
  qed
  note t0 = ReconcileNormal_finalizer_first
         [where vm = freshVM and w = ?w and r = r0 and namespace = "''ns''" and name = "''vm''"]
  from t0 h a have c1: "ReconcileNormal ?w r0 freshVM = (None, r0, readyVM) \<and> ContainsFinalizer readyVM finalizerName"
    by metis
  from t0 h g have c3: "providerCalls (fst (snd (snd (Reconcile ?w r0 ''ns'' ''vm'')))) = providerCalls r0"
    by blast
  from c1 h g p c3 show ?thesis by blast
qed

text \<open>
  C8. The requeue delay is either ten seconds or zero; it is ten seconds exactly when
  the phase is Creating, or the power state is powered on and the IP address is empty.
  When \<open>Reconcile\<close> reads a VirtualMachine that is neither paused nor being deleted and
  \<open>ReconcileNormal\<close> returns no error, its result asks for a requeue after
  \<open>requeueDelay\<close> of the VirtualMachine as the pass left it.
\<close>

theorem requeueDelay_policy:
  "(requeueDelay v = 10 * Second \<or> requeueDelay v = 0)
   \<and> (requeueDelay v = 10 * Second \<longleftrightarrow>
        (Phase (Status v) = Creating
         \<or> (PowerState (Status v) = VirtualMachinePoweredOn \<and> VmIp (Status v) = [])))
   \<and> (GetVirtualMachine w namespace name = Inr vm
         \<and> \<not> hasKey (vm_Annotations vm) PauseAnnotation
         \<and> NewHelper w vm = None
         \<and> IsZero (vm_DeletionTimestamp vm)
         \<and> ReconcileNormal w (logCall r (ClientGet ''VirtualMachine'' namespace name)) vm = (None, r', v)
       \<longrightarrow> fst (Reconcile w r namespace name) = \<lparr>Requeue = False, RequeueAfter = requeueDelay v\<rparr>)"
  by (auto simp: requeueDelay_def Second_def Reconcile_def Let_def split: option.splits)

theorem requeueDelay_policy_witness:
  "GetVirtualMachine (world0\<lparr>GetVirtualMachine := \<lambda>namespace name. Inr (setPhase freshVM Creating)\<rparr>) ''ns'' ''vm''
     = Inr (setPhase freshVM Creating)
   \<and> \<not> hasKey (vm_Annotations (setPhase freshVM Creating)) PauseAnnotation
   \<and> NewHelper (world0\<lparr>GetVirtualMachine := \<lambda>namespace name. Inr (setPhase freshVM Creating)\<rparr>) (setPhase freshVM Creating) = None
   \<and> IsZero (vm_DeletionTimestamp (setPhase freshVM Creating))
   \<and> ReconcileNormal (world0\<lparr>GetVirtualMachine := \<lambda>namespace name. Inr (setPhase freshVM Creating)\<rparr>)
        (logCall r0 (ClientGet ''VirtualMachine'' ''ns'' ''vm'')) (setPhase freshVM Creating)
       = (None, logCall r0 (ClientGet ''VirtualMachine'' ''ns'' ''vm''), setPhase readyVM Creating)
   \<and> fst (Reconcile (world0\<lparr>GetVirtualMachine := \<lambda>namespace name. Inr (setPhase freshVM Creating)\<rparr>) r0 ''ns'' ''vm'')
       = \<lparr>Requeue = False, RequeueAfter = 10000000000\<rparr>"
proof -
  let ?w = "world0\<lparr>GetVirtualMachine := \<lambda>namespace name. Inr (setPhase freshVM Creating)\<rparr>"
  have h: "GetVirtualMachine ?w ''ns'' ''vm'' = Inr (setPhase freshVM Creating)
     \<and> \<not> hasKey (vm_Annotations (setPhase freshVM Creating)) PauseAnnotation
     \<and> NewHelper ?w (setPhase freshVM Creating) = None
     \<and> IsZero (vm_DeletionTimestamp (setPhase freshVM Creating))
     \<and> ReconcileNormal ?w (logCall r0 (ClientGet ''VirtualMachine'' ''ns'' ''vm'')) (setPhase freshVM Creating)
         = (None, logCall r0 (ClientGet ''VirtualMachine'' ''ns'' ''vm''), setPhase readyVM Creating)"
    by (simp add: concrete_defs setPhase_def hasKey_def IsZero_def ReconcileNormal_def
          ContainsFinalizer_def AddFinalizer_def)
  have d: "requeueDelay (setPhase readyVM Creating) = 10000000000"
    by (simp add: requeueDelay_def setPhase_def Second_def)
  from requeueDelay_policy [of "setPhase readyVM Creating" ?w "''ns''" "''vm''" "setPhase freshVM Creating" r0
      "logCall r0 (ClientGet ''VirtualMachine'' ''ns'' ''vm'')"] h d
  show ?thesis by simp
qed

text \<open>
  C2. On a VirtualMachine that carries the finalizer, \<open>ReconcileDelete\<close> calls the
  provider's delete once, with the phase set to Deleting. When the provider answers nil
  or a NotFound error, there is no error, the phase is Deleted and the finalizer is
  removed. When it answers any other error, that error is returned, the phase is
  Deleting and the finalizer is still there.
\<close>

theorem ReconcileDelete_finalizer:
  assumes "ContainsFinalizer vm finalizerName"
    and "ReconcileDelete w r vm = (err, r', vm')"
  shows "providerCalls r' = providerCalls r @ [ProviderDelete]
    \<and> ((case DeleteVirtualMachine w (setPhase vm Deleting) of None \<Rightarrow> True | Some e \<Rightarrow> IsNotFound e)
         \<longrightarrow> err = None \<and> Phase (Status vm') = Deleted \<and> \<not> ContainsFinalizer vm' finalizerName)
    \<and> (\<forall>e. DeleteVirtualMachine w (setPhase vm Deleting) = Some e \<and> \<not> IsNotFound e
         \<longrightarrow> err = Some e \<and> Phase (Status vm') = Deleting \<and> ContainsFinalizer vm' finalizerName)"
  using assms
  by (auto simp: ReconcileDelete_def deleteVM_def Let_def providerCalls_def logCall_def
        ContainsFinalizer_def RemoveFinalizer_def setPhase_def split: option.splits if_splits)

theorem ReconcileDelete_finalizer_witness:
  "ContainsFinalizer readyVM finalizerName
   \<and> ReconcileDelete world0 r0 readyVM
       = (None, r0\<lparr>calls := [ProviderDelete, EmitEvent ''Delete'' None, ProberRemove]\<rparr>,
          setPhase freshVM Deleted)
   \<and> ReconcileDelete (world0\<lparr>DeleteVirtualMachine := \<lambda>vm. Some (Errorf ''busy'')\<rparr>) r0 readyVM
       = (Some (Errorf ''busy''),
          r0\<lparr>calls := [ProviderDelete, EmitEvent ''Delete'' (Some (Errorf ''busy''))]\<rparr>,
          setPhase readyVM Deleting)
   \<and> providerCalls (r0\<lparr>calls := [ProviderDelete, EmitEvent ''Delete'' None, ProberRemove]\<rparr>)
       = providerCalls r0 @ [ProviderDelete]
   \<and> Phase (Status (setPhase freshVM Deleted)) = Deleted
   \<and> \<not> ContainsFinalizer (setPhase freshVM Deleted) finalizerName
   \<and> Phase (Status (setPhase readyVM Deleting)) = Deleting
   \<and> ContainsFinalizer (setPhase readyVM Deleting) finalizerName"
proof -
  let ?w = "world0\<lparr>DeleteVirtualMachine := \<lambda>vm. Some (Errorf ''busy'')\<rparr>"
  have h: "ContainsFinalizer readyVM finalizerName"
    by (simp add: ContainsFinalizer_def readyVM_def)
  have a: "ReconcileDelete world0 r0 readyVM
       = (None, r0\<lparr>calls := [ProviderDelete, EmitEvent ''Delete'' None, ProberRemove]\<rparr>,
          setPhase freshVM Deleted)"
    by (simp add: run_defs concrete_defs)
  have b: "ReconcileDelete ?w r0 readyVM
       = (Some (Errorf ''busy''),
          r0\<lparr>calls := [ProviderDelete, EmitEvent ''Delete'' (Some (Errorf ''busy''))]\<rparr>,
          setPhase readyVM Deleting)"
    by (simp add: run_defs concrete_defs)
  have d: "DeleteVirtualMachine world0 (setPhase readyVM Deleting) = None
     \<and> DeleteVirtualMachine ?w (setPhase readyVM Deleting) = Some (Errorf ''busy'')"
    by (simp add: world0_def)
  from ReconcileDelete_finalizer [OF h a] ReconcileDelete_finalizer [OF h b] h a b d
  show ?thesis by simp
qed

section \<open>Properties of the dependency resolution and of createOrUpdateVM\<close>

lemma quiet_madeOnly: "quiet P r r' \<Longrightarrow> madeOnly P r r'"
  by (simp add: quiet_def)

lemma quiet_counters:
  "quiet P r r' \<Longrightarrow> NumVMsBeingCreatedOnProvider r' = NumVMsBeingCreatedOnProvider r
     \<and> MaxConcurrentCreateVMsOnProvider r' = MaxConcurrentCreateVMsOnProvider r"
  by (simp add: quiet_def sameCounters_def)

lemma getCondition_setCondition:
  "cond_Type c = t \<Longrightarrow> getCondition t (setCondition c cs) = Some c"
  by (induction cs) auto

lemma MarkFalse_getCondition:
  "\<exists>c. getCondition t (Conditions (Status (MarkFalse vm t reason severity msg))) = Some c
        \<and> cond_Status c = ConditionFalse"
  by (simp add: MarkFalse_def getCondition_setCondition)

lemma getVMClass_Inl:
  "getVMClass w r vm = (Inl e, r1, vm1) \<Longrightarrow>
     \<exists>reason msg. vm1 = MarkFalse vm VirtualMachinePrereqReadyCondition reason ConditionSeverityError msg"
  by (auto simp: getVMClass_def Let_def split: sum.splits if_splits)

lemma getVMClass_Inr:
  "getVMClass w r vm = (Inr vmClass, r1, vm1) \<Longrightarrow> IsVMServiceFSSEnabled w \<Longrightarrow>
     \<exists>items. ListVirtualMachineClassBinding w (vm_Namespace vm) = Inr items
       \<and> list_ex (\<lambda>classBinding. ClassRef_Kind classBinding = ''VirtualMachineClass''
                           \<and> ClassRef_Name classBinding = ClassName (Spec vm)) items"
  by (auto simp: getVMClass_def Let_def split: sum.splits if_splits)

lemma getVMClass_no_binding:
  assumes fss: "IsVMServiceFSSEnabled w"
    and nb: "\<forall>items. ListVirtualMachineClassBinding w (vm_Namespace vm) = Inr items \<longrightarrow>
               \<not> list_ex (\<lambda>classBinding. ClassRef_Kind classBinding = ''VirtualMachineClass''
                           \<and> ClassRef_Name classBinding = ClassName (Spec vm)) items"
    and g: "getVMClass w r vm = (res, r1, vm1)"
  shows "(\<exists>e. res = Inl e)
      \<and> (\<exists>c. getCondition VirtualMachinePrereqReadyCondition (Conditions (Status vm1)) = Some c
           \<and> cond_Status c = ConditionFalse)"
proof (cases res)
  case (Inl e)
  with g getVMClass_Inl [of w r vm e r1 vm1] MarkFalse_getCondition show ?thesis
    by metis
next
  case (Inr vmClass)
  with g getVMClass_Inr [of w r vm vmClass r1 vm1] fss nb show ?thesis
    by blast
qed

lemma getVMClass_vm:
  "getVMClass w r vm = (res, r1, vm1) \<Longrightarrow>
     \<exists>cs. vm1 = vm\<lparr>Status := (Status vm)\<lparr>Conditions := cs\<rparr>\<rparr>"
  by (auto simp: getVMClass_def Let_def MarkFalse_def split: sum.splits if_splits)
     (rule exI [where x = "Conditions (Status vm)"], simp)+

lemma getImage_vm:
  "getImageAndContentLibraryUUID w r vm = (res, r1, vm1) \<Longrightarrow>
     \<exists>cs. vm1 = vm\<lparr>Status := (Status vm)\<lparr>Conditions := cs\<rparr>\<rparr>"
  by (auto simp: getImageAndContentLibraryUUID_def Let_def MarkFalse_def
        split: sum.splits if_splits prod.splits)
     (rule exI [where x = "Conditions (Status vm)"], simp)+

lemma reconcileInstanceStorageSpec_vm:
  "reconcileInstanceStorageSpec w vm vmClass = (res, vm1) \<Longrightarrow>
     \<exists>vs. vm1 = vm\<lparr>Spec := (Spec vm)\<lparr>Volumes := vs\<rparr>\<rparr>"
  by (auto simp: reconcileInstanceStorageSpec_def addInstanceStorageSpec_def Let_def
        split: sum.splits if_splits)
     (rule exI [where x = "Volumes (Spec vm)"], simp)+

lemma getVMMetadata_conflict:
  "VmMetadata (Spec vm) = Some inMetadata \<Longrightarrow> ConfigMapName inMetadata \<noteq> [] \<Longrightarrow>
   SecretName inMetadata \<noteq> [] \<Longrightarrow>
   getVMMetadata w q vm =
     (Inl (Errorf ''failed to get VM metadata. Both configMapName and secretName are specified''), q)"
  by (simp add: getVMMetadata_def)

text \<open>
  C3. When the prerequisites resolve, the provider answers that the VirtualMachine does
  not exist, and the in-flight count has reached the bound, \<open>createOrUpdateVM\<close> returns
  nil with the phase set to Creating, the in-flight count as it was, and no create or
  update call on the provider.
\<close>

theorem createOrUpdateVM_no_slot:
  assumes pre: "createOrUpdateVM_prereqs w r vm = (Inr vmConfigArgs, r1, vm1)"
    and ex: "DoesVirtualMachineExist w vm1 = Inr False"
    and full: "NumVMsBeingCreatedOnProvider r \<ge> MaxConcurrentCreateVMsOnProvider r"
    and run: "createOrUpdateVM w r vm = (err, r', vm')"
  shows "err = None \<and> Phase (Status vm') = Creating
    \<and> NumVMsBeingCreatedOnProvider r' = NumVMsBeingCreatedOnProvider r
    \<and> madeOnly (\<lambda>c. c \<noteq> ProviderCreate \<and> c \<noteq> ProviderUpdate) r r'"
proof -
  have q1: "quiet noWrite r r1" by (rule prereqs_quiet [OF pre])
  have q2: "quiet (\<lambda>c. c \<noteq> ProviderCreate \<and> c \<noteq> ProviderUpdate) r (logCall r1 ProviderExists)"
    by (rule quiet_logCall' [OF _ quiet_mono [OF q1]]) auto
  from quiet_counters [OF q1] full
  have full1: "NumVMsBeingCreatedOnProvider (logCall r1 ProviderExists)
      \<ge> MaxConcurrentCreateVMsOnProvider (logCall r1 ProviderExists)"
    by (simp add: logCall_def)
  from run pre ex full1
  have res: "err = None \<and> r' = logCall r1 ProviderExists \<and> vm' = setPhase vm1 Creating"
    by (simp add: createOrUpdateVM_def Let_def)
  with q2 show ?thesis
    using quiet_counters [OF q2] quiet_madeOnly [OF q2] by (simp add: setPhase_def)
qed

theorem createOrUpdateVM_no_slot_witness:
  "createOrUpdateVM_prereqs world0 fullReconciler readyVM
     = (Inr args0,
        fullReconciler\<lparr>calls :=
          [ClientGet ''VirtualMachineClass'' [] ''small'',
           ClientList ''VirtualMachineClassBinding'' ''ns'',
           ClientGet ''VirtualMachineImage'' [] ''photon'',
           ClientGet ''ContentLibraryProvider'' [] ''cl'',
           ClientGet ''ContentSource'' [] ''cs'',
           ClientList ''ContentSourceBinding'' ''ns'']\<rparr>,
        MarkTrue readyVM VirtualMachinePrereqReadyCondition)
   \<and> DoesVirtualMachineExist world0 (MarkTrue readyVM VirtualMachinePrereqReadyCondition) = Inr False
   \<and> NumVMsBeingCreatedOnProvider fullReconciler \<ge> MaxConcurrentCreateVMsOnProvider fullReconciler
   \<and> fst (createOrUpdateVM world0 fullReconciler readyVM) = None
   \<and> Phase (Status (snd (snd (createOrUpdateVM world0 fullReconciler readyVM)))) = Creating
   \<and> NumVMsBeingCreatedOnProvider (fst (snd (createOrUpdateVM world0 fullReconciler readyVM))) = 2
   \<and> madeOnly (\<lambda>c. c \<noteq> ProviderCreate \<and> c \<noteq> ProviderUpdate) fullReconciler
        (fst (snd (createOrUpdateVM world0 fullReconciler readyVM)))"
proof -
  let ?X = "createOrUpdateVM world0 fullReconciler readyVM"
  have pre: "createOrUpdateVM_prereqs world0 fullReconciler readyVM
     = (Inr args0,
        fullReconciler\<lparr>calls :=
          [ClientGet ''VirtualMachineClass'' [] ''small'',
           ClientList ''VirtualMachineClassBinding'' ''ns'',
           ClientGet ''VirtualMachineImage'' [] ''photon'',
           ClientGet ''ContentLibraryProvider'' [] ''cl'',
           ClientGet ''ContentSource'' [] ''cs'',
           ClientList ''ContentSourceBinding'' ''ns'']\<rparr>,
        MarkTrue readyVM VirtualMachinePrereqReadyCondition)"
    by (simp add: run_defs concrete_defs)
  have ex: "DoesVirtualMachineExist world0 (MarkTrue readyVM VirtualMachinePrereqReadyCondition) = Inr False"
    by (simp add: world0_def)
  have full: "NumVMsBeingCreatedOnProvider fullReconciler \<ge> MaxConcurrentCreateVMsOnProvider fullReconciler"
    and two: "NumVMsBeingCreatedOnProvider fullReconciler = 2"
    by (simp_all add: fullReconciler_def)
  have run: "?X = (fst ?X, fst (snd ?X), snd (snd ?X))" by simp
  from createOrUpdateVM_no_slot [OF pre ex full run] pre ex full two
  show ?thesis by simp
qed

text \<open>
  C10. When the prerequisites resolve to a resource policy with a non-zero deletion
  timestamp, the provider answers that the VirtualMachine does not exist and a create
  slot is free, \<open>createOrUpdateVM\<close> returns the error "cannot create VirtualMachine with
  its resource policy in DELETING state", makes no create call on the provider, and gives
  the slot back.
\<close>

theorem createOrUpdateVM_policy_deleting:
  assumes pre: "createOrUpdateVM_prereqs w r vm = (Inr vmConfigArgs, r1, vm1)"
    and ex: "DoesVirtualMachineExist w vm1 = Inr False"
    and slot: "NumVMsBeingCreatedOnProvider r < MaxConcurrentCreateVMsOnProvider r"
    and rp: "args_ResourcePolicy vmConfigArgs = Some resourcePolicy"
    and del: "\<not> IsZero (rp_DeletionTimestamp resourcePolicy)"
    and run: "createOrUpdateVM w r vm = (err, r', vm')"
  shows "err = Some (Errorf ''cannot create VirtualMachine with its resource policy in DELETING state'')
    \<and> madeOnly (\<lambda>c. c \<noteq> ProviderCreate) r r'
    \<and> NumVMsBeingCreatedOnProvider r' = NumVMsBeingCreatedOnProvider r"
proof -
  let ?e = "Errorf ''cannot create VirtualMachine with its resource policy in DELETING state''"
  have q1: "quiet noWrite r r1" by (rule prereqs_quiet [OF pre])
  have q2: "quiet (\<lambda>c. c \<noteq> ProviderCreate) r
              (logCall (logCall r1 ProviderExists) (EmitEvent ''Create'' (Some ?e)))"
    by (rule quiet_logCall' [OF _ quiet_logCall' [OF _ quiet_mono [OF q1]]]) auto
  from quiet_counters [OF q1] slot
  have slot1: "\<not> NumVMsBeingCreatedOnProvider (logCall r1 ProviderExists)
      \<ge> MaxConcurrentCreateVMsOnProvider (logCall r1 ProviderExists)"
    by (simp add: logCall_def)
  from run pre ex slot1 rp del
  have res: "err = Some ?e
      \<and> r' = logCall (logCall r1 ProviderExists) (EmitEvent ''Create'' (Some ?e))"
    by (auto simp: createOrUpdateVM_def createOrUpdateVM_create_def Let_def logCall_def)
  with q2 show ?thesis
    using quiet_counters [OF q2] quiet_madeOnly [OF q2] by simp
qed

theorem createOrUpdateVM_policy_deleting_witness:
  "createOrUpdateVM_prereqs world0 r0 policyVM
     = (Inr (args0\<lparr>args_ResourcePolicy := Some \<lparr>rp_Name = ''rp'', rp_DeletionTimestamp = Some 7\<rparr>\<rparr>),
        r0\<lparr>calls :=
          [ClientGet ''VirtualMachineClass'' [] ''small'',
           ClientList ''VirtualMachineClassBinding'' ''ns'',
           ClientGet ''VirtualMachineImage'' [] ''photon'',
           ClientGet ''ContentLibraryProvider'' [] ''cl'',
           ClientGet ''ContentSource'' [] ''cs'',
           ClientList ''ContentSourceBinding'' ''ns'',
           ClientGet ''VirtualMachineSetResourcePolicy'' ''ns'' ''rp'',
           ProviderIsResourcePolicyReady]\<rparr>,
        MarkTrue policyVM VirtualMachinePrereqReadyCondition)
   \<and> DoesVirtualMachineExist world0 (MarkTrue policyVM VirtualMachinePrereqReadyCondition) = Inr False
   \<and> NumVMsBeingCreatedOnProvider r0 < MaxConcurrentCreateVMsOnProvider r0
   \<and> \<not> IsZero (rp_DeletionTimestamp \<lparr>rp_Name = ''rp'', rp_DeletionTimestamp = Some 7\<rparr>)
   \<and> fst (createOrUpdateVM world0 r0 policyVM)
       = Some (Errorf ''cannot create VirtualMachine with its resource policy in DELETING state'')
   \<and> madeOnly (\<lambda>c. c \<noteq> ProviderCreate) r0 (fst (snd (createOrUpdateVM world0 r0 policyVM)))
   \<and> NumVMsBeingCreatedOnProvider (fst (snd (createOrUpdateVM world0 r0 policyVM))) = 0"
proof -
  let ?X = "createOrUpdateVM world0 r0 policyVM"
  let ?rp = "\<lparr>rp_Name = ''rp'', rp_DeletionTimestamp = Some 7\<rparr>"
  have pre: "createOrUpdateVM_prereqs world0 r0 policyVM
     = (Inr (args0\<lparr>args_ResourcePolicy := Some ?rp\<rparr>),
        r0\<lparr>calls :=
          [ClientGet ''VirtualMachineClass'' [] ''small'',
           ClientList ''VirtualMachineClassBinding'' ''ns'',
           ClientGet ''VirtualMachineImage'' [] ''photon'',
           ClientGet ''ContentLibraryProvider'' [] ''cl'',
           ClientGet ''ContentSource'' [] ''cs'',
           ClientList ''ContentSourceBinding'' ''ns'',
           ClientGet ''VirtualMachineSetResourcePolicy'' ''ns'' ''rp'',
           ProviderIsResourcePolicyReady]\<rparr>,
        MarkTrue policyVM VirtualMachinePrereqReadyCondition)"
    by (simp add: run_defs concrete_defs KubernetesTopologyZoneLabelKey_def)
  have ex: "DoesVirtualMachineExist world0 (MarkTrue policyVM VirtualMachinePrereqReadyCondition) = Inr False"
    by (simp add: world0_def)
  have slot: "NumVMsBeingCreatedOnProvider r0 < MaxConcurrentCreateVMsOnProvider r0"
    and zero: "NumVMsBeingCreatedOnProvider r0 = 0"
    by (simp_all add: r0_def)
  have rp: "args_ResourcePolicy (args0\<lparr>args_ResourcePolicy := Some ?rp\<rparr>) = Some ?rp" by simp
  have del: "\<not> IsZero (rp_DeletionTimestamp ?rp)" by (simp add: IsZero_def)
  have run: "?X = (fst ?X, fst (snd ?X), snd (snd ?X))" by simp
  from createOrUpdateVM_policy_deleting [OF pre ex slot rp del run] pre ex slot del zero
  show ?thesis by simp
qed

text \<open>
  C5. With the VM Service feature switch on, when the list of class bindings of the
  VirtualMachine's namespace holds no binding of kind VirtualMachineClass that names the
  VirtualMachine's class (a binding list without a reference to the class is such a list),
  \<open>getVMClass\<close> fails, \<open>createOrUpdateVM\<close> returns its error, the VirtualMachine carries
  the condition VirtualMachinePrereqReady with status false, and the reconcile has made
  no call on the provider.
\<close>

theorem createOrUpdateVM_class_binding:
  assumes fss: "IsVMServiceFSSEnabled w"
    and nb: "\<forall>items. ListVirtualMachineClassBinding w (vm_Namespace vm) = Inr items \<longrightarrow>
               \<not> list_ex (\<lambda>classBinding. ClassRef_Kind classBinding = ''VirtualMachineClass''
                           \<and> ClassRef_Name classBinding = ClassName (Spec vm)) items"
    and run: "createOrUpdateVM w r vm = (err, r', vm')"
  shows "(\<exists>e. getVMClass w r vm = (Inl e, r', vm') \<and> err = Some e)
    \<and> (\<exists>c. getCondition VirtualMachinePrereqReadyCondition (Conditions (Status vm')) = Some c
           \<and> cond_Status c = ConditionFalse)
    \<and> madeOnly clientOnly r r'"
proof -
  obtain res r1 vm1 where g: "getVMClass w r vm = (res, r1, vm1)"
    by (cases "getVMClass w r vm") auto
  from getVMClass_no_binding [OF fss nb g] obtain e where e: "res = Inl e"
    and c: "\<exists>c. getCondition VirtualMachinePrereqReadyCondition (Conditions (Status vm1)) = Some c
           \<and> cond_Status c = ConditionFalse"
    by blast
  from run g e have "err = Some e \<and> r' = r1 \<and> vm' = vm1"
    by (simp add: createOrUpdateVM_def createOrUpdateVM_prereqs_def)
  with g e c getVMClass_quiet [OF g] show ?thesis
    by (auto simp: quiet_def)
qed

theorem createOrUpdateVM_class_binding_witness:
  "IsVMServiceFSSEnabled (world0\<lparr>ListVirtualMachineClassBinding := \<lambda>namespace. Inr []\<rparr>)
   \<and> ListVirtualMachineClassBinding (world0\<lparr>ListVirtualMachineClassBinding := \<lambda>namespace. Inr []\<rparr>)
        (vm_Namespace readyVM) = Inr []
   \<and> fst (createOrUpdateVM (world0\<lparr>ListVirtualMachineClassBinding := \<lambda>namespace. Inr []\<rparr>) r0 readyVM)
        \<noteq> None
   \<and> (\<exists>c. getCondition VirtualMachinePrereqReadyCondition
              (Conditions (Status (snd (snd (createOrUpdateVM
                 (world0\<lparr>ListVirtualMachineClassBinding := \<lambda>namespace. Inr []\<rparr>) r0 readyVM))))) = Some c
          \<and> cond_Status c = ConditionFalse)
   \<and> madeOnly clientOnly r0
        (fst (snd (createOrUpdateVM (world0\<lparr>ListVirtualMachineClassBinding := \<lambda>namespace. Inr []\<rparr>) r0 readyVM)))"
proof -
  let ?w = "world0\<lparr>ListVirtualMachineClassBinding := \<lambda>namespace. Inr []\<rparr>"
  let ?X = "createOrUpdateVM ?w r0 readyVM"
  have fss: "IsVMServiceFSSEnabled ?w" by (simp add: world0_def)
  have l: "ListVirtualMachineClassBinding ?w (vm_Namespace readyVM) = Inr []" by simp
  have nb: "\<forall>items. ListVirtualMachineClassBinding ?w (vm_Namespace readyVM) = Inr items \<longrightarrow>
               \<not> list_ex (\<lambda>classBinding. ClassRef_Kind classBinding = ''VirtualMachineClass''
                           \<and> ClassRef_Name classBinding = ClassName (Spec readyVM)) items"
    by simp
  have run: "?X = (fst ?X, fst (snd ?X), snd (snd ?X))" by simp
  from createOrUpdateVM_class_binding [OF fss nb run] fss l
  show ?thesis by blast
qed

text \<open>
  C6, amended. On a VirtualMachine whose metadata names both a config map and a secret,
  \<open>getVMMetadata\<close> returns the error "failed to get VM metadata. Both configMapName and
  secretName are specified" and leaves the Reconciler as it was (it fetches nothing).
  \<open>createOrUpdateVM\<close> returns the error of the first step that fails: the error of
  \<open>getVMClass\<close>, else the error of \<open>reconcileInstanceStorageSpec\<close>, else the error of
  \<open>getImageAndContentLibraryUUID\<close>, and the metadata error when these three succeeded. In
  every case it returns an error and makes no call on the provider.
\<close>

theorem createOrUpdateVM_metadata_conflict:
  assumes md: "VmMetadata (Spec vm) = Some inMetadata"
    and cm: "ConfigMapName inMetadata \<noteq> []"
    and sec: "SecretName inMetadata \<noteq> []"
  shows "getVMMetadata w q vm =
           (Inl (Errorf ''failed to get VM metadata. Both configMapName and secretName are specified''), q)
    \<and> (getVMClass w r vm = (Inl eA, rA, vmA) \<longrightarrow>
          createOrUpdateVM w r vm = (Some eA, rA, vmA))
    \<and> (getVMClass w r vm = (Inr vmClass, r1, vm1) \<longrightarrow>
         (reconcileInstanceStorageSpec w vm1 vmClass = (Some eB, vmB) \<longrightarrow>
            createOrUpdateVM w r vm = (Some eB, r1, vmB))
         \<and> (reconcileInstanceStorageSpec w vm1 vmClass = (None, vm2) \<longrightarrow>
              (getImageAndContentLibraryUUID w r1 vm2 = (Inl eC, rC, vmC) \<longrightarrow>
                 createOrUpdateVM w r vm = (Some eC, rC, vmC))
              \<and> (getImageAndContentLibraryUUID w r1 vm2 = (Inr found, r3, vm3) \<longrightarrow>
                   createOrUpdateVM w r vm =
                     (Some (Errorf ''failed to get VM metadata. Both configMapName and secretName are specified''),
                      r3, vm3))))
    \<and> fst (createOrUpdateVM w r vm) \<noteq> None
    \<and> madeOnly clientOnly r (fst (snd (createOrUpdateVM w r vm)))"
proof -
  let ?e = "Errorf ''failed to get VM metadata. Both configMapName and secretName are specified''"
  have a: "getVMClass w r vm = (Inl eA, rA, vmA) \<longrightarrow>
          createOrUpdateVM w r vm = (Some eA, rA, vmA)"
    by (simp add: createOrUpdateVM_def createOrUpdateVM_prereqs_def)
  have b: "getVMClass w r vm = (Inr vmClass, r1, vm1) \<longrightarrow>
         reconcileInstanceStorageSpec w vm1 vmClass = (Some eB, vmB) \<longrightarrow>
            createOrUpdateVM w r vm = (Some eB, r1, vmB)"
    by (simp add: createOrUpdateVM_def createOrUpdateVM_prereqs_def)
  have c: "getVMClass w r vm = (Inr vmClass, r1, vm1) \<longrightarrow>
         reconcileInstanceStorageSpec w vm1 vmClass = (None, vm2) \<longrightarrow>
         getImageAndContentLibraryUUID w r1 vm2 = (Inl eC, rC, vmC) \<longrightarrow>
            createOrUpdateVM w r vm = (Some eC, rC, vmC)"
    by (simp add: createOrUpdateVM_def createOrUpdateVM_prereqs_def)
  have d: "getVMClass w r vm = (Inr vmClass, r1, vm1) \<longrightarrow>
         reconcileInstanceStorageSpec w vm1 vmClass = (None, vm2) \<longrightarrow>
         getImageAndContentLibraryUUID w r1 vm2 = (Inr found, r3, vm3) \<longrightarrow>
            createOrUpdateVM w r vm = (Some ?e, r3, vm3)"
  proof (intro impI)
    assume gA: "getVMClass w r vm = (Inr vmClass, r1, vm1)"
      and gB: "reconcileInstanceStorageSpec w vm1 vmClass = (None, vm2)"
      and gC: "getImageAndContentLibraryUUID w r1 vm2 = (Inr found, r3, vm3)"
    from getVMClass_vm [OF gA] md have "VmMetadata (Spec vm1) = Some inMetadata" by auto
    with reconcileInstanceStorageSpec_vm [OF gB] have "VmMetadata (Spec vm2) = Some inMetadata" by auto
    with getImage_vm [OF gC] have mdC: "VmMetadata (Spec vm3) = Some inMetadata" by auto
    obtain img u where f: "found = (img, u)" by (cases found)
    from gA gB gC f getVMMetadata_conflict [OF mdC cm sec, of w r3]
    show "createOrUpdateVM w r vm = (Some ?e, r3, vm3)"
      by (simp add: createOrUpdateVM_def createOrUpdateVM_prereqs_def)
  qed
  have e: "fst (createOrUpdateVM w r vm) \<noteq> None
      \<and> madeOnly clientOnly r (fst (snd (createOrUpdateVM w r vm)))"
  proof -
    obtain resA rA' vmA' where gA: "getVMClass w r vm = (resA, rA', vmA')"
      by (cases "getVMClass w r vm") auto
    have qA: "quiet clientOnly r rA'" by (rule getVMClass_quiet [OF gA])
    from getVMClass_vm [OF gA] md have mdA: "VmMetadata (Spec vmA') = Some inMetadata" by auto
    show ?thesis
    proof (cases resA)
      case (Inl x)
      with gA qA show ?thesis
        by (simp add: createOrUpdateVM_def createOrUpdateVM_prereqs_def quiet_def)
    next
      case (Inr cl)
      obtain resB vmB' where gB: "reconcileInstanceStorageSpec w vmA' cl = (resB, vmB')"
        by (cases "reconcileInstanceStorageSpec w vmA' cl") auto
      from reconcileInstanceStorageSpec_vm [OF gB] mdA
      have mdB: "VmMetadata (Spec vmB') = Some inMetadata" by auto
      show ?thesis
      proof (cases resB)
        case (Some x)
        with gA Inr gB qA show ?thesis
          by (simp add: createOrUpdateVM_def createOrUpdateVM_prereqs_def quiet_def)
      next
        case None
        obtain resC rC' vmC' where gC: "getImageAndContentLibraryUUID w rA' vmB' = (resC, rC', vmC')"
          by (cases "getImageAndContentLibraryUUID w rA' vmB'") auto
        have qC: "quiet clientOnly r rC'"
          by (rule quiet_trans [OF qA getImage_quiet [OF gC]])
        from getImage_vm [OF gC] mdB have mdC: "VmMetadata (Spec vmC') = Some inMetadata" by auto
        show ?thesis
        proof (cases resC)
          case (Inl x)
          with gA Inr gB None gC qC show ?thesis
            by (simp add: createOrUpdateVM_def createOrUpdateVM_prereqs_def quiet_def)
        next
          case inr: (Inr f)
          obtain img u where f: "f = (img, u)" by (cases f)
          from gA Inr gB None gC inr f getVMMetadata_conflict [OF mdC cm sec, of w rC'] qC
          show ?thesis
            by (simp add: createOrUpdateVM_def createOrUpdateVM_prereqs_def quiet_def)
        qed
      qed
    qed
  qed
  from a b c d e getVMMetadata_conflict [OF md cm sec, of w q] show ?thesis by blast
qed

theorem createOrUpdateVM_metadata_conflict_witness:
  "VmMetadata (Spec conflictVM) = Some \<lparr>ConfigMapName = ''cm'', SecretName = ''sec'', Transport = []\<rparr>
   \<and> getVMMetadata world0 r0 conflictVM =
        (Inl (Errorf ''failed to get VM metadata. Both configMapName and secretName are specified''), r0)
   \<and> getVMClass world0 r0 conflictVM
       = (Inr class0,
          r0\<lparr>calls := [ClientGet ''VirtualMachineClass'' [] ''small'',
                         ClientList ''VirtualMachineClassBinding'' ''ns'']\<rparr>,
          conflictVM)
   \<and> reconcileInstanceStorageSpec world0 conflictVM class0 = (None, conflictVM)
   \<and> createOrUpdateVM world0 r0 conflictVM =
        (Some (Errorf ''failed to get VM metadata. Both configMapName and secretName are specified''),
         r0\<lparr>calls := [ClientGet ''VirtualMachineClass'' [] ''small'',
                        ClientList ''VirtualMachineClassBinding'' ''ns'',
                        ClientGet ''VirtualMachineImage'' [] ''photon'',
                        ClientGet ''ContentLibraryProvider'' [] ''cl'',
                        ClientGet ''ContentSource'' [] ''cs'',
                        ClientList ''ContentSourceBinding'' ''ns'']\<rparr>,
         conflictVM)
   \<and> madeOnly clientOnly r0 (fst (snd (createOrUpdateVM world0 r0 conflictVM)))"
proof -
  let ?md = "\<lparr>ConfigMapName = ''cm'', SecretName = ''sec'', Transport = []\<rparr>"
  let ?r1 = "r0\<lparr>calls := [ClientGet ''VirtualMachineClass'' [] ''small'',
                             ClientList ''VirtualMachineClassBinding'' ''ns'']\<rparr>"
  let ?r3 = "r0\<lparr>calls := [ClientGet ''VirtualMachineClass'' [] ''small'',
                        ClientList ''VirtualMachineClassBinding'' ''ns'',
                        ClientGet ''VirtualMachineImage'' [] ''photon'',
                        ClientGet ''ContentLibraryProvider'' [] ''cl'',
                        ClientGet ''ContentSource'' [] ''cs'',
                        ClientList ''ContentSourceBinding'' ''ns'']\<rparr>"
  have md: "VmMetadata (Spec conflictVM) = Some ?md" by (simp add: conflictVM_def)
  have cm: "ConfigMapName ?md \<noteq> []" and sec: "SecretName ?md \<noteq> []" by simp_all
  have a: "getVMClass world0 r0 conflictVM = (Inr class0, ?r1, conflictVM)"
    by (simp add: run_defs concrete_defs)
  have b: "reconcileInstanceStorageSpec world0 conflictVM class0 = (None, conflictVM)"
    by (simp add: run_defs concrete_defs)
  have c: "getImageAndContentLibraryUUID world0 ?r1 conflictVM
      = (Inr (image0, ''cl-uuid''), ?r3, conflictVM)"
    by (simp add: run_defs concrete_defs)
  from createOrUpdateVM_metadata_conflict [OF md cm sec, of world0 r0 r0 _ _ _ class0 ?r1 conflictVM
      _ _ conflictVM _ _ _ "(image0, ''cl-uuid'')" ?r3 conflictVM] a b c md
  show ?thesis by blast
qed

text \<open>
  C6 as stated fails: with both metadata names set and the class missing,
  \<open>createOrUpdateVM\<close> returns the NotFound error of the class, not the metadata error.
\<close>

theorem createOrUpdateVM_metadata_conflict_counterexample:
  "VmMetadata (Spec conflictVM) = Some \<lparr>ConfigMapName = ''cm'', SecretName = ''sec'', Transport = []\<rparr>
   \<and> fst (createOrUpdateVM (world0\<lparr>GetVirtualMachineClass := \<lambda>name. Inl notFound\<rparr>) r0 conflictVM)
       = Some notFound
   \<and> notFound \<noteq> Errorf ''failed to get VM metadata. Both configMapName and secretName are specified''"
  by (simp add: createOrUpdateVM_def createOrUpdateVM_prereqs_def getVMClass_def Let_def
        world0_def conflictVM_def notFound_def)

text \<open>
  C7, amended. What \<open>getImageAndContentLibraryUUID\<close> returns and which reads it has
  made, case by case. It reads the image by the name in the spec and fails with the
  error of that read. An image without an owner reference of kind ContentLibraryProvider
  is an error, and nothing more is read. Otherwise the provider named by the first such
  reference is read, and the error of that read is returned. With the VM Service feature
  switch off, the image and the provider's UUID are returned and nothing more is read,
  whatever the provider's owner references. With the switch on, a provider without an
  owner reference of kind ContentSource is an error, and nothing more is read; otherwise
  the ContentSource named by the first such reference is read (its error returned), the
  ContentSourceBindings of the VirtualMachine's namespace are listed (the error wrapped),
  and the image and the UUID are returned exactly when a binding of kind ContentSource
  names that ContentSource.
\<close>

theorem getImageAndContentLibraryUUID_owner_chain:
  "(let r1 = logCall r (ClientGet ''VirtualMachineImage'' [] (ImageName (Spec vm)));
        r2 = logCall r1 (ClientGet ''ContentLibraryProvider'' [] (ref_Name clRef));
        r3 = logCall r2 (ClientGet ''ContentSource'' [] (ref_Name csRef));
        r4 = logCall r3 (ClientList ''ContentSourceBinding'' (vm_Namespace vm));
        res = fst (getImageAndContentLibraryUUID w r vm);
        r' = fst (snd (getImageAndContentLibraryUUID w r vm))
    in (GetVirtualMachineImage w (ImageName (Spec vm)) = Inl e
        \<longrightarrow> res = Inl e \<and> r' = r1)
     \<and> (GetVirtualMachineImage w (ImageName (Spec vm)) = Inr vmImage
          \<and> find (\<lambda>ownerRef. ref_Kind ownerRef = ''ContentLibraryProvider'') (image_OwnerReferences vmImage) = None
        \<longrightarrow> res = Inl (Errorf (''VirtualMachineImage does not have an OwnerReference to the ContentLibraryProvider. imageName: ''
                      @ image_Name vmImage))
           \<and> r' = r1)
     \<and> (GetVirtualMachineImage w (ImageName (Spec vm)) = Inr vmImage
          \<and> find (\<lambda>ownerRef. ref_Kind ownerRef = ''ContentLibraryProvider'') (image_OwnerReferences vmImage) = Some clRef
          \<and> GetContentLibraryProvider w (ref_Name clRef) = Inl e
        \<longrightarrow> res = Inl e \<and> r' = r2)
     \<and> (GetVirtualMachineImage w (ImageName (Spec vm)) = Inr vmImage
          \<and> find (\<lambda>ownerRef. ref_Kind ownerRef = ''ContentLibraryProvider'') (image_OwnerReferences vmImage) = Some clRef
          \<and> GetContentLibraryProvider w (ref_Name clRef) = Inr clProvider
          \<and> \<not> IsVMServiceFSSEnabled w
        \<longrightarrow> res = Inr (vmImage, clp_UUID clProvider) \<and> r' = r2)
     \<and> (GetVirtualMachineImage w (ImageName (Spec vm)) = Inr vmImage
          \<and> find (\<lambda>ownerRef. ref_Kind ownerRef = ''ContentLibraryProvider'') (image_OwnerReferences vmImage) = Some clRef
          \<and> GetContentLibraryProvider w (ref_Name clRef) = Inr clProvider
          \<and> IsVMServiceFSSEnabled w
          \<and> find (\<lambda>ownerRef. ref_Kind ownerRef = ''ContentSource'') (clp_OwnerReferences clProvider) = None
        \<longrightarrow> res = Inl (Errorf (''ContentLibraryProvider does not have an OwnerReference to the ContentSource. clProviderName: ''
                      @ clp_Name clProvider))
           \<and> r' = r2)
     \<and> (GetVirtualMachineImage w (ImageName (Spec vm)) = Inr vmImage
          \<and> find (\<lambda>ownerRef. ref_Kind ownerRef = ''ContentLibraryProvider'') (image_OwnerReferences vmImage) = Some clRef
          \<and> GetContentLibraryProvider w (ref_Name clRef) = Inr clProvider
          \<and> IsVMServiceFSSEnabled w
          \<and> find (\<lambda>ownerRef. ref_Kind ownerRef = ''ContentSource'') (clp_OwnerReferences clProvider) = Some csRef
          \<and> GetContentSource w (ref_Name csRef) = Inl e
        \<longrightarrow> res = Inl e \<and> r' = r3)
     \<and> (GetVirtualMachineImage w (ImageName (Spec vm)) = Inr vmImage
          \<and> find (\<lambda>ownerRef. ref_Kind ownerRef = ''ContentLibraryProvider'') (image_OwnerReferences vmImage) = Some clRef
          \<and> GetContentLibraryProvider w (ref_Name clRef) = Inr clProvider
          \<and> IsVMServiceFSSEnabled w
          \<and> find (\<lambda>ownerRef. ref_Kind ownerRef = ''ContentSource'') (clp_OwnerReferences clProvider) = Some csRef
          \<and> GetContentSource w (ref_Name csRef) = Inr contentSource
          \<and> ListContentSourceBinding w (vm_Namespace vm) = Inl e
        \<longrightarrow> res = Inl (Wrap e (''Failed to list ContentSourceBindings in namespace: '' @ vm_Namespace vm))
           \<and> r' = r4)
     \<and> (GetVirtualMachineImage w (ImageName (Spec vm)) = Inr vmImage
          \<and> find (\<lambda>ownerRef. ref_Kind ownerRef = ''ContentLibraryProvider'') (image_OwnerReferences vmImage) = Some clRef
          \<and> GetContentLibraryProvider w (ref_Name clRef) = Inr clProvider
          \<and> IsVMServiceFSSEnabled w
          \<and> find (\<lambda>ownerRef. ref_Kind ownerRef = ''ContentSource'') (clp_OwnerReferences clProvider) = Some csRef
          \<and> GetContentSource w (ref_Name csRef) = Inr contentSource
          \<and> ListContentSourceBinding w (vm_Namespace vm) = Inr items
        \<longrightarrow> res = (if list_ex (\<lambda>csBinding. ContentSourceRef_Kind csBinding = ''ContentSource''
                                 \<and> ContentSourceRef_Name csBinding = cs_Name contentSource) items
                  then Inr (vmImage, clp_UUID clProvider)
                  else Inl (Errorf (FormatNoOperands w
                         (''Namespace does not have access to VirtualMachineImage. imageName: ''
                          @ ImageName (Spec vm) @ '', contentLibraryUUID: '' @ clp_UUID clProvider
                          @ '', namespace: '' @ vm_Namespace vm))))
           \<and> r' = r4))"
  by (auto simp: getImageAndContentLibraryUUID_def getContentLibraryProviderFromImage_def
        getContentSourceFromCLProvider_def Let_def split: sum.splits)

theorem getImageAndContentLibraryUUID_owner_chain_witness:
  "fst (getImageAndContentLibraryUUID world0 r0 readyVM) = Inr (image0, ''cl-uuid'')
   \<and> calls (fst (snd (getImageAndContentLibraryUUID world0 r0 readyVM)))
       = [ClientGet ''VirtualMachineImage'' [] ''photon'',
          ClientGet ''ContentLibraryProvider'' [] ''cl'',
          ClientGet ''ContentSource'' [] ''cs'',
          ClientList ''ContentSourceBinding'' ''ns'']
   \<and> fst (getImageAndContentLibraryUUID
             (world0\<lparr>GetContentLibraryProvider := \<lambda>name. Inr plainCLP\<rparr>) r0 readyVM)
       = Inl (Errorf (''ContentLibraryProvider does not have an OwnerReference to the ContentSource. clProviderName: ''
                @ clp_Name plainCLP))
   \<and> calls (fst (snd (getImageAndContentLibraryUUID
             (world0\<lparr>GetContentLibraryProvider := \<lambda>name. Inr plainCLP\<rparr>) r0 readyVM)))
       = [ClientGet ''VirtualMachineImage'' [] ''photon'',
          ClientGet ''ContentLibraryProvider'' [] ''cl'']"
proof -
  let ?w = "world0\<lparr>GetContentLibraryProvider := \<lambda>name. Inr plainCLP\<rparr>"
  let ?clRef = "\<lparr>ref_Kind = ''ContentLibraryProvider'', ref_Name = ''cl'', ref_UID = ''uid-2''\<rparr>"
  let ?csRef = "\<lparr>ref_Kind = ''ContentSource'', ref_Name = ''cs'', ref_UID = ''uid-3''\<rparr>"
  let ?items = "[\<lparr>ContentSourceRef_Kind = ''ContentSource'', ContentSourceRef_Name = ''cs''\<rparr>]"
  have img: "GetVirtualMachineImage world0 (ImageName (Spec readyVM)) = Inr image0"
    and img': "GetVirtualMachineImage ?w (ImageName (Spec readyVM)) = Inr image0"
    and cl: "find (\<lambda>ownerRef. ref_Kind ownerRef = ''ContentLibraryProvider'')
               (image_OwnerReferences image0) = Some ?clRef"
    and clp: "GetContentLibraryProvider world0 (ref_Name ?clRef) = Inr clp0"
    and clp': "GetContentLibraryProvider ?w (ref_Name ?clRef) = Inr plainCLP"
    and fss: "IsVMServiceFSSEnabled world0" and fss': "IsVMServiceFSSEnabled ?w"
    and cs: "find (\<lambda>ownerRef. ref_Kind ownerRef = ''ContentSource'')
               (clp_OwnerReferences clp0) = Some ?csRef"
    and nocs: "find (\<lambda>ownerRef. ref_Kind ownerRef = ''ContentSource'')
               (clp_OwnerReferences plainCLP) = None"
    and gcs: "GetContentSource world0 (ref_Name ?csRef) = Inr \<lparr>cs_Name = ''cs''\<rparr>"
    and l: "ListContentSourceBinding world0 (vm_Namespace readyVM) = Inr ?items"
    by (simp_all add: concrete_defs)
  note full = getImageAndContentLibraryUUID_owner_chain
      [where w = world0 and r = r0 and vm = readyVM and vmImage = image0 and clRef = ?clRef
         and clProvider = clp0 and csRef = ?csRef and contentSource = "\<lparr>cs_Name = ''cs''\<rparr>"
         and items = ?items, unfolded Let_def]
  note stop = getImageAndContentLibraryUUID_owner_chain
      [where w = ?w and r = r0 and vm = readyVM and vmImage = image0 and clRef = ?clRef
         and clProvider = plainCLP, unfolded Let_def]
  from full img cl clp fss cs gcs l
  have a: "fst (getImageAndContentLibraryUUID world0 r0 readyVM) =
       (if list_ex (\<lambda>csBinding. ContentSourceRef_Kind csBinding = ''ContentSource''
                        \<and> ContentSourceRef_Name csBinding = cs_Name \<lparr>cs_Name = ''cs''\<rparr>) ?items
        then Inr (image0, clp_UUID clp0)
        else Inl (Errorf (FormatNoOperands world0
                (''Namespace does not have access to VirtualMachineImage. imageName: ''
                 @ ImageName (Spec readyVM) @ '', contentLibraryUUID: '' @ clp_UUID clp0
                 @ '', namespace: '' @ vm_Namespace readyVM))))
     \<and> fst (snd (getImageAndContentLibraryUUID world0 r0 readyVM)) =
         logCall (logCall (logCall (logCall r0
           (ClientGet ''VirtualMachineImage'' [] (ImageName (Spec readyVM))))
           (ClientGet ''ContentLibraryProvider'' [] (ref_Name ?clRef)))
           (ClientGet ''ContentSource'' [] (ref_Name ?csRef)))
           (ClientList ''ContentSourceBinding'' (vm_Namespace readyVM))"
    by blast
  from stop img' cl clp' fss' nocs
  have b: "fst (getImageAndContentLibraryUUID ?w r0 readyVM) =
       Inl (Errorf (''ContentLibraryProvider does not have an OwnerReference to the ContentSource. clProviderName: ''
                @ clp_Name plainCLP))
     \<and> fst (snd (getImageAndContentLibraryUUID ?w r0 readyVM)) =
         logCall (logCall r0
           (ClientGet ''VirtualMachineImage'' [] (ImageName (Spec readyVM))))
           (ClientGet ''ContentLibraryProvider'' [] (ref_Name ?clRef))"
    by blast
  have a': "fst (getImageAndContentLibraryUUID world0 r0 readyVM) = Inr (image0, ''cl-uuid'')
     \<and> calls (fst (snd (getImageAndContentLibraryUUID world0 r0 readyVM)))
       = [ClientGet ''VirtualMachineImage'' [] ''photon'',
          ClientGet ''ContentLibraryProvider'' [] ''cl'',
          ClientGet ''ContentSource'' [] ''cs'',
          ClientList ''ContentSourceBinding'' ''ns'']"
    unfolding conjunct1 [OF a] conjunct2 [OF a]
    by (simp add: logCall_def r0_def readyVM_def freshVM_def clp0_def)
  have b': "calls (fst (snd (getImageAndContentLibraryUUID ?w r0 readyVM)))
       = [ClientGet ''VirtualMachineImage'' [] ''photon'',
          ClientGet ''ContentLibraryProvider'' [] ''cl'']"
    unfolding conjunct2 [OF b]
    by (simp add: logCall_def r0_def readyVM_def freshVM_def)
  from a' b b' show ?thesis by blast
qed

text \<open>
  C7 as stated fails: with the feature switch off, an image whose provider has no owner
  reference to a ContentSource resolves.
\<close>

theorem getImageAndContentLibraryUUID_owner_chain_counterexample:
  "find (\<lambda>ownerRef. ref_Kind ownerRef = ''ContentSource'') (clp_OwnerReferences plainCLP) = None
   \<and> GetContentLibraryProvider
        (world0\<lparr>IsVMServiceFSSEnabled := False, GetContentLibraryProvider := \<lambda>name. Inr plainCLP\<rparr>) ''cl''
       = Inr plainCLP
   \<and> fst (getImageAndContentLibraryUUID
        (world0\<lparr>IsVMServiceFSSEnabled := False, GetContentLibraryProvider := \<lambda>name. Inr plainCLP\<rparr>)
        r0 readyVM) = Inr (image0, ''cl-uuid'')"
  by (simp add: getImageAndContentLibraryUUID_def getContentLibraryProviderFromImage_def Let_def
        concrete_defs)

section \<open>Properties of the phase\<close>

lemma prereqs_vm:
  assumes "createOrUpdateVM_prereqs w r vm = (res, r1, vm1)"
  shows "Phase (Status vm1) = Phase (Status vm) \<and> vm_Finalizers vm1 = vm_Finalizers vm
    \<and> vm_DeletionTimestamp vm1 = vm_DeletionTimestamp vm"
  using assms unfolding createOrUpdateVM_prereqs_def
  by (auto split: prod.splits sum.splits option.splits simp: MarkTrue_def
        dest!: getVMClass_vm getImage_vm reconcileInstanceStorageSpec_vm)

lemma update_phase:
  assumes update: "\<forall>v a. Phase (snd (UpdateVirtualMachine w v a)) = Phase (Status v)
                        \<or> Phase (snd (UpdateVirtualMachine w v a)) = Created"
    and run: "createOrUpdateVM_update w r vm a = (err, r', vm')"
  shows "(Phase (Status vm') = Phase (Status vm) \<or> Phase (Status vm') = Created)
    \<and> vm_Finalizers vm' = vm_Finalizers vm
    \<and> vm_DeletionTimestamp vm' = vm_DeletionTimestamp vm"
proof (cases "IsInstanceStorageFSSEnabled w \<and> \<not> findInstanceStorageVMPlacementStatus vm")
  case True
  with run show ?thesis by (simp add: createOrUpdateVM_update_def)
next
  case False
  obtain e st where u: "UpdateVirtualMachine w (setPhase vm Created) a = (e, st)"
    by (cases "UpdateVirtualMachine w (setPhase vm Created) a") auto
  from update [rule_format, of "setPhase vm Created" a] u
  have "Phase st = Created" by (auto simp: setPhase_def)
  with run False u show ?thesis
    by (auto simp: createOrUpdateVM_update_def Let_def setPhase_def split: option.splits)
qed

lemma create_phase:
  assumes create: "\<forall>v a. Phase (snd (CreateVirtualMachine w v a)) = Phase (Status v)
                        \<or> Phase (snd (CreateVirtualMachine w v a)) = Created"
    and update: "\<forall>v a. Phase (snd (UpdateVirtualMachine w v a)) = Phase (Status v)
                        \<or> Phase (snd (UpdateVirtualMachine w v a)) = Created"
    and run: "createOrUpdateVM_create w r vm a = (err, r', vm')"
  shows "(Phase (Status vm') = Phase (Status vm) \<or> Phase (Status vm') = Created)
    \<and> vm_Finalizers vm' = vm_Finalizers vm
    \<and> vm_DeletionTimestamp vm' = vm_DeletionTimestamp vm"
proof (cases "case args_ResourcePolicy a of None \<Rightarrow> False
              | Some resourcePolicy \<Rightarrow> \<not> IsZero (rp_DeletionTimestamp resourcePolicy)")
  case True
  with run show ?thesis by (simp add: createOrUpdateVM_create_def Let_def)
next
  case False
  obtain e st where c: "CreateVirtualMachine w vm a = (e, st)"
    by (cases "CreateVirtualMachine w vm a") auto
  from create [rule_format, of vm a] c
  have p: "Phase st = Phase (Status vm) \<or> Phase st = Created" by auto
  show ?thesis
  proof (cases e)
    case (Some x)
    with run False c p show ?thesis
      by (auto simp: createOrUpdateVM_create_def Let_def)
  next
    case None
    with run False c
    have "createOrUpdateVM_update w (logCall r ProviderCreate) (vm\<lparr>Status := st\<rparr>) a = (err, r', vm')"
      by (simp add: createOrUpdateVM_create_def Let_def)
    from update_phase [OF update this] p show ?thesis by auto
  qed
qed

lemma createOrUpdateVM_phase:
  assumes create: "\<forall>v a. Phase (snd (CreateVirtualMachine w v a)) = Phase (Status v)
                        \<or> Phase (snd (CreateVirtualMachine w v a)) = Created"
    and update: "\<forall>v a. Phase (snd (UpdateVirtualMachine w v a)) = Phase (Status v)
                        \<or> Phase (snd (UpdateVirtualMachine w v a)) = Created"
    and run: "createOrUpdateVM w r vm = (err, r', vm')"
  shows "(Phase (Status vm') = Phase (Status vm) \<or> Phase (Status vm') = Created
          \<or> (Phase (Status vm') = Creating
              \<and> (\<exists>a r1 v. createOrUpdateVM_prereqs w r vm = (Inr a, r1, v)
                     \<and> DoesVirtualMachineExist w v = Inr False)))
    \<and> vm_Finalizers vm' = vm_Finalizers vm
    \<and> vm_DeletionTimestamp vm' = vm_DeletionTimestamp vm"
proof -
  obtain res r1 vm1 where pre: "createOrUpdateVM_prereqs w r vm = (res, r1, vm1)"
    by (cases "createOrUpdateVM_prereqs w r vm") auto
  note same = prereqs_vm [OF pre]
  show ?thesis
  proof (cases res)
    case (Inl e)
    with run pre same show ?thesis by (auto simp add: createOrUpdateVM_def)
  next
    case (Inr a)
    show ?thesis
    proof (cases "DoesVirtualMachineExist w vm1")
      case (Inl e)
      with run pre Inr same show ?thesis by (auto simp add: createOrUpdateVM_def Let_def)
    next
      case ex: (Inr exists)
      show ?thesis
      proof (cases exists)
        case True
        with run pre Inr ex
        have "createOrUpdateVM_update w (logCall r1 ProviderExists) vm1 a = (err, r', vm')"
          by (simp add: createOrUpdateVM_def Let_def)
        from update_phase [OF update this] same show ?thesis by auto
      next
        case False
        with ex pre Inr
        have absent: "\<exists>a r1 v. createOrUpdateVM_prereqs w r vm = (Inr a, r1, v)
                     \<and> DoesVirtualMachineExist w v = Inr False" by auto
        let ?r2 = "logCall r1 ProviderExists"
        show ?thesis
        proof (cases "NumVMsBeingCreatedOnProvider ?r2 \<ge> MaxConcurrentCreateVMsOnProvider ?r2")
          case True
          with run pre Inr ex False same absent show ?thesis
            by (auto simp add: createOrUpdateVM_def Let_def setPhase_def)
        next
          case noslot: False
          let ?r3 = "?r2\<lparr>NumVMsBeingCreatedOnProvider := NumVMsBeingCreatedOnProvider ?r2 + 1\<rparr>"
          obtain e r4 vm3 where c: "createOrUpdateVM_create w ?r3 (setPhase vm1 Creating) a = (e, r4, vm3)"
            by (cases "createOrUpdateVM_create w ?r3 (setPhase vm1 Creating) a") auto
          from run pre Inr ex False noslot c have "vm' = vm3"
            by (simp add: createOrUpdateVM_def Let_def)
          with create_phase [OF create update c] same absent show ?thesis
            by (auto simp: setPhase_def)
        qed
      qed
    qed
  qed
qed

lemma ReconcileNormal_phase:
  assumes create: "\<forall>v a. Phase (snd (CreateVirtualMachine w v a)) = Phase (Status v)
                        \<or> Phase (snd (CreateVirtualMachine w v a)) = Created"
    and update: "\<forall>v a. Phase (snd (UpdateVirtualMachine w v a)) = Phase (Status v)
                        \<or> Phase (snd (UpdateVirtualMachine w v a)) = Created"
    and run: "ReconcileNormal w r vm = (err, r', vm')"
  shows "(Phase (Status vm') = Phase (Status vm) \<or> Phase (Status vm') = Created
          \<or> (Phase (Status vm') = Creating
              \<and> (\<exists>a r1 v. createOrUpdateVM_prereqs w r vm = (Inr a, r1, v)
                     \<and> DoesVirtualMachineExist w v = Inr False)))
    \<and> vm_DeletionTimestamp vm' = vm_DeletionTimestamp vm"
proof (cases "ContainsFinalizer vm finalizerName")
  case False
  with run show ?thesis by (auto simp: ReconcileNormal_def AddFinalizer_def ContainsFinalizer_def)
next
  case True
  obtain e r1 vm1 where c: "createOrUpdateVM w r vm = (e, r1, vm1)"
    by (cases "createOrUpdateVM w r vm") auto
  with run True have "vm' = vm1"
    by (auto simp: ReconcileNormal_def split: option.splits)
  with createOrUpdateVM_phase [OF create update c] show ?thesis by blast
qed

lemma ReconcileDelete_phase:
  assumes run: "ReconcileDelete w r vm = (err, r', vm')"
  shows "(if ContainsFinalizer vm finalizerName
          then (Phase (Status vm') = Deleting \<and> ContainsFinalizer vm' finalizerName)
                \<or> (Phase (Status vm') = Deleted \<and> \<not> ContainsFinalizer vm' finalizerName)
          else vm' = vm)
    \<and> vm_DeletionTimestamp vm' = vm_DeletionTimestamp vm"
  using run
  by (auto simp: ReconcileDelete_def Let_def setPhase_def RemoveFinalizer_def ContainsFinalizer_def
        split: prod.splits option.splits if_splits)

lemma pass1:
  "Reconcile world0 r0 ''ns'' ''vm'' =
     (emptyResult, None,
      r0\<lparr>calls :=
       [ClientGet ''VirtualMachine'' ''ns'' ''vm'',
        ClientGet ''VirtualMachineClass'' [] ''small'',
        ClientList ''VirtualMachineClassBinding'' ''ns'',
        ClientGet ''VirtualMachineImage'' [] ''photon'',
        ClientGet ''ContentLibraryProvider'' [] ''cl'',
        ClientGet ''ContentSource'' [] ''cs'',
        ClientList ''ContentSourceBinding'' ''ns'', ProviderExists,
        ProviderCreate, ProviderUpdate, ProberAdd]\<rparr>,
      Some (MarkTrue (setPhase readyVM Created) VirtualMachinePrereqReadyCondition))"
  by (simp add: run_defs concrete_defs)

text \<open>
  C4, amended. One pass of \<open>Reconcile\<close> over a VirtualMachine read from the store, with a
  provider whose create and update leave the phase as it is or set it to Created. The
  pass does not change the deletion timestamp. On an object that is not being deleted
  the phase after the pass is the phase before, or Created, or Creating, the last only
  when the prerequisites of this VirtualMachine resolved and the provider answered, for
  the VirtualMachine they resolved to, that it does not exist. On an object that is being
  deleted it is the phase before, Deleting or Deleted. When the phase agrees with the
  deletion state before the pass (\<open>phaseConsistent\<close>), it does so after the pass, and the
  phase is not earlier in the order unset, Creating, Created, Deleting, Deleted than
  before, except for the step from Created back to Creating on an object that is not
  being deleted and that the provider reports absent. A sequence of passes is a sequence
  of such steps.
\<close>

theorem Reconcile_phase_forward:
  assumes get: "GetVirtualMachine w namespace name = Inr vm"
    and create: "\<forall>v a. Phase (snd (CreateVirtualMachine w v a)) = Phase (Status v)
                        \<or> Phase (snd (CreateVirtualMachine w v a)) = Created"
    and update: "\<forall>v a. Phase (snd (UpdateVirtualMachine w v a)) = Phase (Status v)
                        \<or> Phase (snd (UpdateVirtualMachine w v a)) = Created"
    and run: "Reconcile w r namespace name = (result, err, r', Some vm')"
  shows "vm_DeletionTimestamp vm' = vm_DeletionTimestamp vm
    \<and> (IsZero (vm_DeletionTimestamp vm) \<longrightarrow>
          Phase (Status vm') = Phase (Status vm) \<or> Phase (Status vm') = Created
          \<or> (Phase (Status vm') = Creating \<and> (\<exists>a r1 v. createOrUpdateVM_prereqs w
                        (logCall r (ClientGet ''VirtualMachine'' namespace name)) vm = (Inr a, r1, v)
                   \<and> DoesVirtualMachineExist w v = Inr False)))
    \<and> (\<not> IsZero (vm_DeletionTimestamp vm) \<longrightarrow>
          Phase (Status vm') = Phase (Status vm) \<or> Phase (Status vm') = Deleting
          \<or> Phase (Status vm') = Deleted)
    \<and> (phaseConsistent vm \<longrightarrow>
          phaseConsistent vm'
          \<and> (phaseRank (Phase (Status vm)) \<le> phaseRank (Phase (Status vm'))
              \<or> (Phase (Status vm) = Created \<and> Phase (Status vm') = Creating
                  \<and> IsZero (vm_DeletionTimestamp vm)
                  \<and> (\<exists>a r1 v. createOrUpdateVM_prereqs w
                        (logCall r (ClientGet ''VirtualMachine'' namespace name)) vm = (Inr a, r1, v)
                   \<and> DoesVirtualMachineExist w v = Inr False))))"
proof -
  let ?r0 = "logCall r (ClientGet ''VirtualMachine'' namespace name)"
  show ?thesis
  proof (cases "hasKey (vm_Annotations vm) PauseAnnotation \<or> NewHelper w vm \<noteq> None")
    case True
    with run get have "vm' = vm"
      by (auto simp: Reconcile_def Let_def split: option.splits if_splits)
    then show ?thesis by simp
  next
    case active: False
    show ?thesis
    proof (cases "IsZero (vm_DeletionTimestamp vm)")
      case True
      obtain e r1 v1 where n: "ReconcileNormal w ?r0 vm = (e, r1, v1)"
        by (cases "ReconcileNormal w ?r0 vm") auto
      with run get active True have v: "vm' = v1"
        by (auto simp: Reconcile_def Let_def split: option.splits)
      note p = ReconcileNormal_phase [OF create update n]
      from p v True have t: "vm_DeletionTimestamp vm' = vm_DeletionTimestamp vm
        \<and> (Phase (Status vm') = Phase (Status vm) \<or> Phase (Status vm') = Created
          \<or> (Phase (Status vm') = Creating \<and> (\<exists>a r1 v. createOrUpdateVM_prereqs w
                        (logCall r (ClientGet ''VirtualMachine'' namespace name)) vm = (Inr a, r1, v)
                   \<and> DoesVirtualMachineExist w v = Inr False)))"
        by blast
      have "phaseConsistent vm \<longrightarrow>
          phaseConsistent vm'
          \<and> (phaseRank (Phase (Status vm)) \<le> phaseRank (Phase (Status vm'))
              \<or> (Phase (Status vm) = Created \<and> Phase (Status vm') = Creating
                  \<and> IsZero (vm_DeletionTimestamp vm)
                  \<and> (\<exists>a r1 v. createOrUpdateVM_prereqs w
                        (logCall r (ClientGet ''VirtualMachine'' namespace name)) vm = (Inr a, r1, v)
                   \<and> DoesVirtualMachineExist w v = Inr False)))"
      proof
        assume c: "phaseConsistent vm"
        with True have nd: "Phase (Status vm) \<noteq> Deleting \<and> Phase (Status vm) \<noteq> Deleted"
          by (auto simp: phaseConsistent_def)
        from t nd True have c': "phaseConsistent vm'"
          by (auto simp: phaseConsistent_def)
        from t nd True have "phaseRank (Phase (Status vm)) \<le> phaseRank (Phase (Status vm'))
              \<or> (Phase (Status vm) = Created \<and> Phase (Status vm') = Creating
                  \<and> IsZero (vm_DeletionTimestamp vm)
                  \<and> (\<exists>a r1 v. createOrUpdateVM_prereqs w
                        (logCall r (ClientGet ''VirtualMachine'' namespace name)) vm = (Inr a, r1, v)
                   \<and> DoesVirtualMachineExist w v = Inr False))"
          by (cases "Phase (Status vm)") auto
        with c' show "phaseConsistent vm'
          \<and> (phaseRank (Phase (Status vm)) \<le> phaseRank (Phase (Status vm'))
              \<or> (Phase (Status vm) = Created \<and> Phase (Status vm') = Creating
                  \<and> IsZero (vm_DeletionTimestamp vm)
                  \<and> (\<exists>a r1 v. createOrUpdateVM_prereqs w
                        (logCall r (ClientGet ''VirtualMachine'' namespace name)) vm = (Inr a, r1, v)
                   \<and> DoesVirtualMachineExist w v = Inr False)))" by blast
      qed
      with t True show ?thesis by blast
    next
      case False
      obtain e r1 v1 where d: "ReconcileDelete w ?r0 vm = (e, r1, v1)"
        by (cases "ReconcileDelete w ?r0 vm") auto
      with run get active False have v: "vm' = v1"
        by (auto simp: Reconcile_def Let_def split: option.splits)
      note p = ReconcileDelete_phase [OF d]
      from p v have t: "vm_DeletionTimestamp vm' = vm_DeletionTimestamp vm
         \<and> (Phase (Status vm') = Phase (Status vm) \<or> Phase (Status vm') = Deleting
          \<or> Phase (Status vm') = Deleted)"
        by (auto split: if_splits)
      have "phaseConsistent vm \<longrightarrow>
          phaseConsistent vm' \<and> phaseRank (Phase (Status vm)) \<le> phaseRank (Phase (Status vm'))"
      proof
        assume c: "phaseConsistent vm"
        show "phaseConsistent vm' \<and> phaseRank (Phase (Status vm)) \<le> phaseRank (Phase (Status vm'))"
        proof (cases "ContainsFinalizer vm finalizerName")
          case True
          with c have "Phase (Status vm) \<noteq> Deleted" by (auto simp: phaseConsistent_def)
          then have "phaseRank (Phase (Status vm)) \<le> 3" by (cases "Phase (Status vm)") auto
          with p v True False t show ?thesis
            by (auto simp: phaseConsistent_def)
        next
          case nf: False
          with p v c show ?thesis by simp
        qed
      qed
      with t False show ?thesis by blast
    qed
  qed
qed

theorem Reconcile_phase_forward_witness:
  "GetVirtualMachine
       (world0\<lparr>GetVirtualMachine := \<lambda>namespace name. Inr (setPhase readyVM Created),
                CreateVirtualMachine := \<lambda>vm vmConfigArgs. (Some (Errorf ''no capacity''), Status vm)\<rparr>)
       ''ns'' ''vm'' = Inr (setPhase readyVM Created)
   \<and> phaseConsistent (setPhase readyVM Created)
   \<and> IsZero (vm_DeletionTimestamp (setPhase readyVM Created))
   \<and> snd (snd (snd (Reconcile
        (world0\<lparr>GetVirtualMachine := \<lambda>namespace name. Inr (setPhase readyVM Created),
                 CreateVirtualMachine := \<lambda>vm vmConfigArgs. (Some (Errorf ''no capacity''), Status vm)\<rparr>)
        r0 ''ns'' ''vm'')))
       = Some (setPhase (MarkTrue readyVM VirtualMachinePrereqReadyCondition) Creating)
   \<and> phaseConsistent (setPhase (MarkTrue readyVM VirtualMachinePrereqReadyCondition) Creating)
   \<and> Phase (Status (setPhase readyVM Created)) = Created
   \<and> Phase (Status (setPhase (MarkTrue readyVM VirtualMachinePrereqReadyCondition) Creating)) = Creating
   \<and> (\<exists>a r1 v. createOrUpdateVM_prereqs
          (world0\<lparr>GetVirtualMachine := \<lambda>namespace name. Inr (setPhase readyVM Created),
                   CreateVirtualMachine := \<lambda>vm vmConfigArgs. (Some (Errorf ''no capacity''), Status vm)\<rparr>)
          (logCall r0 (ClientGet ''VirtualMachine'' ''ns'' ''vm'')) (setPhase readyVM Created)
            = (Inr a, r1, v)
        \<and> DoesVirtualMachineExist
          (world0\<lparr>GetVirtualMachine := \<lambda>namespace name. Inr (setPhase readyVM Created),
                   CreateVirtualMachine := \<lambda>vm vmConfigArgs. (Some (Errorf ''no capacity''), Status vm)\<rparr>) v
            = Inr False)"
proof -
  let ?V = "setPhase readyVM Created"
  let ?V' = "setPhase (MarkTrue readyVM VirtualMachinePrereqReadyCondition) Creating"
  let ?w = "world0\<lparr>GetVirtualMachine := \<lambda>namespace name. Inr ?V,
                CreateVirtualMachine := \<lambda>vm vmConfigArgs. (Some (Errorf ''no capacity''), Status vm)\<rparr>"
  let ?X = "Reconcile ?w r0 ''ns'' ''vm''"
  have get: "GetVirtualMachine ?w ''ns'' ''vm'' = Inr ?V" by simp
  have create: "\<forall>v a. Phase (snd (CreateVirtualMachine ?w v a)) = Phase (Status v)
                        \<or> Phase (snd (CreateVirtualMachine ?w v a)) = Created"
    by simp
  have update: "\<forall>v a. Phase (snd (UpdateVirtualMachine ?w v a)) = Phase (Status v)
                        \<or> Phase (snd (UpdateVirtualMachine ?w v a)) = Created"
    by (simp add: world0_def)
  have obj: "snd (snd (snd ?X)) = Some ?V'"
    by (simp add: run_defs concrete_defs)
  then have run: "?X = (fst ?X, fst (snd ?X), fst (snd (snd ?X)), Some ?V')"
    by (metis prod.collapse)
  have cons: "phaseConsistent ?V" and z: "IsZero (vm_DeletionTimestamp ?V)"
    and p: "Phase (Status ?V) = Created" and p': "Phase (Status ?V') = Creating"
    by (simp_all add: phaseConsistent_def setPhase_def MarkTrue_def readyVM_def freshVM_def IsZero_def)
  have bw: "\<not> phaseRank (Phase (Status ?V)) \<le> phaseRank (Phase (Status ?V'))"
    by (simp add: p p')
  from Reconcile_phase_forward [OF get create update run] cons bw
  have "phaseConsistent ?V'
      \<and> (\<exists>a r1 v. createOrUpdateVM_prereqs ?w (logCall r0 (ClientGet ''VirtualMachine'' ''ns'' ''vm'')) ?V
            = (Inr a, r1, v)
        \<and> DoesVirtualMachineExist ?w v = Inr False)"
    by blast
  with get cons z obj p p' show ?thesis by blast
qed

text \<open>
  C4 as stated fails. Two passes on one VirtualMachine: the first creates it and leaves
  phase Created; before the second the provider has lost it and the create fails, and the
  second leaves phase Creating. And one pass on an object in phase Deleted that still
  carries its finalizer, whose delete fails at the provider, leaves phase Deleting.
\<close>

theorem Reconcile_phase_forward_counterexample:
  "GetVirtualMachine world0 ''ns'' ''vm'' = Inr readyVM
   \<and> Phase (Status readyVM) = PhaseUnset
   \<and> map_option (\<lambda>v. Phase (Status v)) (snd (snd (snd (Reconcile world0 r0 ''ns'' ''vm'')))) = Some Created
   \<and> map_option (\<lambda>v. Phase (Status v))
        (snd (snd (snd (Reconcile
           (world0\<lparr>GetVirtualMachine := \<lambda>namespace name.
                       Inr (MarkTrue (setPhase readyVM Created) VirtualMachinePrereqReadyCondition),
                    CreateVirtualMachine := \<lambda>vm vmConfigArgs. (Some (Errorf ''no capacity''), Status vm)\<rparr>)
           (fst (snd (snd (Reconcile world0 r0 ''ns'' ''vm'')))) ''ns'' ''vm'')))) = Some Creating
   \<and> phaseRank Creating < phaseRank Created
   \<and> Phase (Status ((setPhase readyVM Deleted)\<lparr>vm_DeletionTimestamp := Some 5\<rparr>)) = Deleted
   \<and> map_option (\<lambda>v. Phase (Status v))
        (snd (snd (snd (Reconcile
           (world0\<lparr>GetVirtualMachine := \<lambda>namespace name.
                       Inr ((setPhase readyVM Deleted)\<lparr>vm_DeletionTimestamp := Some 5\<rparr>),
                    DeleteVirtualMachine := \<lambda>vm. Some (Errorf ''busy'')\<rparr>)
           r0 ''ns'' ''vm'')))) = Some Deleting
   \<and> phaseRank Deleting < phaseRank Deleted"
  by (simp add: pass1) (simp add: run_defs concrete_defs)

section \<open>Properties of the endpoints\<close>

lemma endpointVMs_all_fail:
  "\<forall>vm \<in> set items. vm_DeletionTimestamp vm = None \<and> VmIp (Status vm) \<noteq> []
        \<and> Host (Status vm) \<noteq> [] \<and> runProbe w vmService vm (ReadinessProbe (Spec vm)) \<noteq> None
   \<Longrightarrow> endpointVMs w vmService service items (n, subsets) = (n + int (length items), subsets)"
  by (induction items arbitrary: n) auto

text \<open>
  C9, amended. When the selected list is not empty and every selected VirtualMachine
  reaches its readiness probe (it is not deleted and has an address and a host) and fails
  it, the subsets computed are empty and the error kept for the end is the
  \<open>RequeueAfterError\<close> of ten seconds. An existing Endpoints object without subsets is
  left as it is and that error is returned. An existing Endpoints object with subsets is
  updated to one without subsets, and that error is returned when the update succeeds,
  the update's error otherwise. An error other than NotFound of the read of the Endpoints
  is returned as it is. The service controller's \<open>Reconcile\<close> answers a
  \<open>RequeueAfterError\<close> with a requeue after its duration and no error.
\<close>

theorem updateEndpoints_all_probes_fail:
  assumes list: "ListVirtualMachine w (vms_Namespace vmService) (vms_Selector vmService) = Inr items"
    and ne: "items \<noteq> []"
    and fail: "\<forall>vm \<in> set items. vm_DeletionTimestamp vm = None \<and> VmIp (Status vm) \<noteq> []
        \<and> Host (Status vm) \<noteq> [] \<and> runProbe w vmService vm (ReadinessProbe (Spec vm)) \<noteq> None"
  shows "(GetEndpoints w (service_Namespace service) (service_Name service) = Inr currentEndpoints
          \<and> Subsets currentEndpoints = [] \<longrightarrow>
            updateEndpoints w vmService service = (Some (RequeueAfterError (10 * Second)), []))
    \<and> (GetEndpoints w (service_Namespace service) (service_Name service) = Inr currentEndpoints
        \<and> Subsets currentEndpoints \<noteq> [] \<and> om_ResourceVersion (ep_ObjectMeta currentEndpoints) \<noteq> [] \<longrightarrow>
            updateEndpoints w vmService service =
              ((case ClientUpdateEndpoints w (makeEndpoints w vmService currentEndpoints []) of
                  Some err \<Rightarrow> Some err
                | None \<Rightarrow> Some (RequeueAfterError (10 * Second))),
               [UpdatedEndpoints (makeEndpoints w vmService currentEndpoints [])])
            \<and> Subsets (makeEndpoints w vmService currentEndpoints []) = [])
    \<and> (GetEndpoints w (service_Namespace service) (service_Name service) = Inl e
        \<and> \<not> IsNotFound e \<longrightarrow>
            updateEndpoints w vmService service = (Some e, []))
    \<and> reconcileAnswer (Some (RequeueAfterError (10 * Second)))
         = (\<lparr>Requeue = False, RequeueAfter = 10 * Second\<rparr>, None)"
proof -
  from ne have pos: "0 < int (length items)" by simp
  from endpointVMs_all_fail [OF fail, of service 0 "[]"]
  have loop: "endpointVMs w vmService service items (0, []) = (int (length items), [])" by simp
  show ?thesis
    using list loop pos
    by (auto simp: updateEndpoints_def writeEndpoints_def makeEndpoints_def Let_def
          probeFailureRequeueTime_def reconcileAnswer_def mult.commute split: option.splits)
qed

theorem updateEndpoints_all_probes_fail_witness:
  "ListVirtualMachine svc_world0 (vms_Namespace vmService0) (vms_Selector vmService0) = Inr [probedVM]
   \<and> runProbe svc_world0 vmService0 probedVM (ReadinessProbe (Spec probedVM)) = Some connectionRefused
   \<and> GetEndpoints svc_world0 (service_Namespace service0) (service_Name service0) = Inr endpoints0
   \<and> Subsets endpoints0 \<noteq> []
   \<and> om_ResourceVersion (ep_ObjectMeta endpoints0) \<noteq> []
   \<and> updateEndpoints svc_world0 vmService0 service0 =
        (Some (RequeueAfterError (10 * Second)),
         [UpdatedEndpoints (makeEndpoints svc_world0 vmService0 endpoints0 [])])
   \<and> reconcileAnswer (Some (RequeueAfterError (10 * Second)))
         = (\<lparr>Requeue = False, RequeueAfter = 10 * Second\<rparr>, None)"
proof -
  have list: "ListVirtualMachine svc_world0 (vms_Namespace vmService0) (vms_Selector vmService0) = Inr [probedVM]"
    by (simp add: svc_world0_def)
  have ne: "[probedVM] \<noteq> []" by simp
  have probe: "runProbe svc_world0 vmService0 probedVM (ReadinessProbe (Spec probedVM)) = Some connectionRefused"
    by (simp add: runProbe_def findPort_def svc_world0_def probedVM_def)
  have fail: "\<forall>vm \<in> set [probedVM]. vm_DeletionTimestamp vm = None \<and> VmIp (Status vm) \<noteq> []
        \<and> Host (Status vm) \<noteq> [] \<and> runProbe svc_world0 vmService0 vm (ReadinessProbe (Spec vm)) \<noteq> None"
    using probe by (simp add: probedVM_def readyVM_def freshVM_def)
  have get: "GetEndpoints svc_world0 (service_Namespace service0) (service_Name service0) = Inr endpoints0"
    by (simp add: svc_world0_def)
  have s: "Subsets endpoints0 \<noteq> []" and v: "om_ResourceVersion (ep_ObjectMeta endpoints0) \<noteq> []"
    by (simp_all add: endpoints0_def)
  have u: "ClientUpdateEndpoints svc_world0 (makeEndpoints svc_world0 vmService0 endpoints0 []) = None"
    by (simp add: svc_world0_def)
  from updateEndpoints_all_probes_fail [OF list ne fail, of service0 endpoints0] s v u list probe get
  show ?thesis by simp
qed

text \<open>
  C9 as stated fails: with one selected VirtualMachine whose probe fails and an Endpoints
  object that lists an address, \<open>updateEndpoints\<close> updates the object to one without
  subsets.
\<close>

theorem updateEndpoints_all_probes_fail_counterexample:
  "ListVirtualMachine svc_world0 (vms_Namespace vmService0) (vms_Selector vmService0) = Inr [probedVM]
   \<and> runProbe svc_world0 vmService0 probedVM (ReadinessProbe (Spec probedVM)) = Some connectionRefused
   \<and> GetEndpoints svc_world0 (service_Namespace service0) (service_Name service0) = Inr endpoints0
   \<and> snd (updateEndpoints svc_world0 vmService0 service0)
       = [UpdatedEndpoints (makeEndpoints svc_world0 vmService0 endpoints0 [])]
   \<and> Subsets (makeEndpoints svc_world0 vmService0 endpoints0 []) \<noteq> Subsets endpoints0"
  by (simp add: updateEndpoints_def writeEndpoints_def makeEndpoints_def Let_def runProbe_def
        findPort_def svc_world0_def probedVM_def endpoints0_def readyVM_def freshVM_def
        service0_def vmService0_def)

end
